theory Spec2Isabelle
  imports Main "HOL-Library.Multiset"
begin

section \<open>Strings and numbers of the source language\<close>

text \<open>
  A JavaScript string is modelled as a \<^typ>\<open>string\<close>; a \<^typ>\<open>char\<close> stands for one
  code unit below 256.  The double quote and the backslash cannot be written inside a
  string literal of the outer syntax, so they get names.
\<close>

definition dq :: char where
  \<open>dq = CHR 0x22\<close>

definition bsl :: char where
  \<open>bsl = CHR 0x5C\<close>

text \<open>
  White space as \<open>\s\<close> and \<open>String.prototype.trim\<close> see it (TAB, LF, VT, FF, CR, SP and
  NBSP are the members below 256), the decimal digits of \<open>\d\<close>, and the line terminators
  that \<open>.\<close> refuses.
\<close>

definition is_space :: \<open>char \<Rightarrow> bool\<close> where
  \<open>is_space c = (c \<in> set [CHR 0x09, CHR 0x0A, CHR 0x0B, CHR 0x0C, CHR 0x0D, CHR 0x20, CHR 0xA0])\<close>

definition is_digit :: \<open>char \<Rightarrow> bool\<close> where
  \<open>is_digit c = (c \<in> set ''0123456789'')\<close>

definition is_line_terminator :: \<open>char \<Rightarrow> bool\<close> where
  \<open>is_line_terminator c = (c = CHR 0x0A \<or> c = CHR 0x0D)\<close>

text \<open>
  Canonicalisation under the \<open>i\<close> flag (no \<open>u\<close> flag): a code unit is upper-cased, and
  a code unit from 128 on never canonicalises to one below 128.  Every literal of the
  patterns below is ASCII, so only the folding of the ASCII letters matters.
\<close>

definition canonicalize :: \<open>char \<Rightarrow> char\<close> where
  \<open>canonicalize c =
     (case map_of (zip ''abcdefghijklmnopqrstuvwxyz'' ''ABCDEFGHIJKLMNOPQRSTUVWXYZ'') c of
        Some u \<Rightarrow> u
      | None \<Rightarrow> c)\<close>

text \<open>
  \<open>Number\<close> values that reach the code as a limit: \<open>parseInt\<close> yields \<open>NaN\<close> or an
  integer.
\<close>

datatype jsnum = NaN | Fin int

text \<open>\<open>a >= b\<close> on an array length and a number: false when the number is \<open>NaN\<close>.\<close>

fun length_ge :: \<open>nat \<Rightarrow> jsnum \<Rightarrow> bool\<close> where
  \<open>length_ge n NaN = False\<close>
| \<open>length_ge n (Fin l) = (l \<le> int n)\<close>

text \<open>
  \<open>Array.prototype.slice(0, end)\<close>: \<open>NaN\<close> is read as 0, a negative end counts from the
  back, and the end is clamped to the length.
\<close>

fun slice0 :: \<open>'a list \<Rightarrow> jsnum \<Rightarrow> 'a list\<close> where
  \<open>slice0 xs NaN = []\<close>
| \<open>slice0 xs (Fin l) =
     (if l < 0 then take (nat (max (int (length xs) + l) 0)) xs else take (nat l) xs)\<close>

text \<open>\<open>Math.min(limit, n)\<close> for an array length \<open>n\<close>: \<open>NaN\<close> is contagious.\<close>

fun math_min :: \<open>jsnum \<Rightarrow> nat \<Rightarrow> jsnum\<close> where
  \<open>math_min NaN n = NaN\<close>
| \<open>math_min (Fin l) n = Fin (min l (int n))\<close>

text \<open>\<open>String.prototype.includes\<close>: the argument occurs as a contiguous substring.\<close>

fun starts_with :: \<open>string \<Rightarrow> string \<Rightarrow> bool\<close> where
  \<open>starts_with s [] = True\<close>
| \<open>starts_with [] (p # ps) = False\<close>
| \<open>starts_with (c # s) (p # ps) = (c = p \<and> starts_with s ps)\<close>

fun str_includes :: \<open>string \<Rightarrow> string \<Rightarrow> bool\<close> where
  \<open>str_includes [] p = starts_with [] p\<close>
| \<open>str_includes (c # s) p = (starts_with (c # s) p \<or> str_includes s p)\<close>

definition trim :: \<open>string \<Rightarrow> string\<close> where
  \<open>trim s = rev (dropWhile is_space (rev (dropWhile is_space s)))\<close>

section \<open>The regular expressions the source uses\<close>

text \<open>
  Every regular expression of the source is a sequence of single characters, greedy and
  lazy repetitions of a character class, and one capture group.  A class is matched
  against one code unit; \<open>LitI\<close> is a literal under the \<open>i\<close> flag.
\<close>

datatype cls =
    AnyC                \<comment> \<open>\<open>[\s\S]\<close>\<close>
  | Dot                 \<comment> \<open>\<open>.\<close>\<close>
  | Lit char            \<comment> \<open>a literal, case-sensitive\<close>
  | LitI char           \<comment> \<open>a literal under the \<open>i\<close> flag\<close>
  | NotC char           \<comment> \<open>\<open>[^c]\<close>\<close>
  | Space               \<comment> \<open>\<open>\s\<close>\<close>
  | Digit               \<comment> \<open>\<open>\d\<close>\<close>
  | QuoteOrSpace        \<comment> \<open>\<open>["\s]\<close>\<close>

fun cmatch :: \<open>cls \<Rightarrow> char \<Rightarrow> bool\<close> where
  \<open>cmatch AnyC c = True\<close>
| \<open>cmatch Dot c = (\<not> is_line_terminator c)\<close>
| \<open>cmatch (Lit a) c = (c = a)\<close>
| \<open>cmatch (LitI a) c = (canonicalize c = canonicalize a)\<close>
| \<open>cmatch (NotC a) c = (c \<noteq> a)\<close>
| \<open>cmatch Space c = is_space c\<close>
| \<open>cmatch Digit c = is_digit c\<close>
| \<open>cmatch QuoteOrSpace c = (c = dq \<or> is_space c)\<close>

datatype item =
    One cls             \<comment> \<open>one code unit of the class\<close>
  | Star cls            \<comment> \<open>\<open>X*\<close>, greedy\<close>
  | Lazy cls            \<comment> \<open>\<open>X*?\<close>, lazy\<close>
  | GOpen               \<comment> \<open>\<open>(\<close> of capture group 1\<close>
  | GClose              \<comment> \<open>\<open>)\<close> of capture group 1\<close>

text \<open>
  The backtracking matcher, anchored at the start of its input.  It returns what is left
  of the input after the match, and the inputs left where group 1 opened and closed.
  A greedy repetition first tries one more code unit and then the rest of the pattern; a
  lazy one first tries the rest of the pattern.
\<close>

fun rmatch :: \<open>item list \<Rightarrow> string \<Rightarrow> string \<Rightarrow> string \<Rightarrow> (string \<times> string \<times> string) option\<close> where
  \<open>rmatch [] s g1 g2 = Some (s, g1, g2)\<close>
| \<open>rmatch (GOpen # r) s g1 g2 = rmatch r s s g2\<close>
| \<open>rmatch (GClose # r) s g1 g2 = rmatch r s g1 s\<close>
| \<open>rmatch (One k # r) [] g1 g2 = None\<close>
| \<open>rmatch (One k # r) (c # s) g1 g2 = (if cmatch k c then rmatch r s g1 g2 else None)\<close>
| \<open>rmatch (Star k # r) [] g1 g2 = rmatch r [] g1 g2\<close>
| \<open>rmatch (Star k # r) (c # s) g1 g2 =
     (if cmatch k c
      then (case rmatch (Star k # r) s g1 g2 of
              Some m \<Rightarrow> Some m
            | None \<Rightarrow> rmatch r (c # s) g1 g2)
      else rmatch r (c # s) g1 g2)\<close>
| \<open>rmatch (Lazy k # r) [] g1 g2 = rmatch r [] g1 g2\<close>
| \<open>rmatch (Lazy k # r) (c # s) g1 g2 =
     (case rmatch r (c # s) g1 g2 of
        Some m \<Rightarrow> Some m
      | None \<Rightarrow> (if cmatch k c then rmatch (Lazy k # r) s g1 g2 else None))\<close>

text \<open>The text of a match that started at \<open>s\<close> and left \<open>rest\<close>.\<close>

definition consumed :: \<open>string \<Rightarrow> string \<Rightarrow> string\<close> where
  \<open>consumed s rest = take (length s - length rest) s\<close>

text \<open>
  \<open>String.prototype.match\<close> with a \<open>g\<close> regular expression: the texts of all matches,
  left to right, each search starting where the previous match ended (one code unit
  further after an empty match).  JavaScript returns \<open>null\<close> for no match; the model
  returns the empty list and the callers test for it.
\<close>

fun match_g :: \<open>item list \<Rightarrow> string \<Rightarrow> string list\<close> where
  \<open>match_g re [] = (case rmatch re [] [] [] of None \<Rightarrow> [] | Some m \<Rightarrow> [[]])\<close>
| \<open>match_g re (c # s) =
     (case rmatch re (c # s) [] [] of
        None \<Rightarrow> match_g re s
      | Some m \<Rightarrow>
          (if length (fst m) < Suc (length s)
           then consumed (c # s) (fst m) # match_g re (fst m)
           else [] # match_g re s))\<close>

text \<open>
  \<open>String.prototype.match\<close> without the \<open>g\<close> flag: the leftmost match; the model keeps
  its capture group 1.
\<close>

fun match_first :: \<open>item list \<Rightarrow> string \<Rightarrow> string option\<close> where
  \<open>match_first re [] =
     (case rmatch re [] [] [] of None \<Rightarrow> None | Some m \<Rightarrow> Some (consumed (fst (snd m)) (snd (snd m))))\<close>
| \<open>match_first re (c # s) =
     (case rmatch re (c # s) [] [] of
        None \<Rightarrow> match_first re s
      | Some m \<Rightarrow> Some (consumed (fst (snd m)) (snd (snd m))))\<close>

text \<open>\<open>String.prototype.replace\<close> with a \<open>g\<close> regular expression and a fixed replacement.\<close>

fun replace_g :: \<open>item list \<Rightarrow> string \<Rightarrow> string \<Rightarrow> string\<close> where
  \<open>replace_g re rep [] = (case rmatch re [] [] [] of None \<Rightarrow> [] | Some m \<Rightarrow> rep)\<close>
| \<open>replace_g re rep (c # s) =
     (case rmatch re (c # s) [] [] of
        None \<Rightarrow> c # replace_g re rep s
      | Some m \<Rightarrow>
          (if length (fst m) < Suc (length s)
           then rep @ replace_g re rep (fst m)
           else rep @ c # replace_g re rep s))\<close>

definition lits :: \<open>string \<Rightarrow> item list\<close> where
  \<open>lits s = map (\<lambda>c. One (Lit c)) s\<close>

definition litsI :: \<open>string \<Rightarrow> item list\<close> where
  \<open>litsI s = map (\<lambda>c. One (LitI c)) s\<close>

section \<open>Review records and the sample generator\<close>

text \<open>
  A review record as every path of the source builds it.  The field \<open>text\<close> of the
  source is \<open>text'\<close> here.
\<close>

record review =
  text' :: string
  rating :: int
  date :: string
  author :: string
  helpful :: int
  source :: string

text \<open>\<open>PlayStoreAPI.generateSampleReviews\<close>: the ten fixed records, cut to the limit.\<close>

definition sampleReviews :: \<open>review list\<close> where
  \<open>sampleReviews =
   [\<lparr>text' = ''This app is absolutely amazing! I use it every day and it works perfectly. The interface is clean and intuitive, and all the features I need are easily accessible. Highly recommend!'',
     rating = 5, date = ''2024-01-15'', author = ''Sarah Johnson'', helpful = 24, source = ''sample''\<rparr>,
    \<lparr>text' = ''Great app overall, but there are a few bugs that need fixing. Sometimes it crashes when I try to upload photos, and the search function could be improved. Otherwise, it\'s pretty good.'',
     rating = 4, date = ''2024-01-14'', author = ''Mike Chen'', helpful = 18, source = ''sample''\<rparr>,
    \<lparr>text' = ''I\'ve been using this app for months now and it\'s been a game-changer for me. The performance is excellent and the customer support team is very responsive. Love it!'',
     rating = 5, date = ''2024-01-13'', author = ''Emily Rodriguez'', helpful = 31, source = ''sample''\<rparr>,
    \<lparr>text' = ''The app is okay, but it\'s missing some important features that I need for work. The UI is a bit outdated and could use a modern refresh. Hoping for updates soon.'',
     rating = 3, date = ''2024-01-12'', author = ''David Kim'', helpful = 12, source = ''sample''\<rparr>,
    \<lparr>text' = ''This is the best app I\'ve ever used! Fast, reliable, and packed with useful features. The developers really know what they\'re doing. Five stars all the way!'',
     rating = 5, date = ''2024-01-11'', author = ''Lisa Thompson'', helpful = 42, source = ''sample''\<rparr>,
    \<lparr>text' = ''Not bad, but could be better. The app works most of the time, but occasionally freezes. The design is nice though, and it\'s easy to navigate.'',
     rating = 3, date = ''2024-01-10'', author = ''Robert Wilson'', helpful = 8, source = ''sample''\<rparr>,
    \<lparr>text' = ''Excellent app with outstanding performance! I\'ve tried many alternatives but this one stands out. The features are exactly what I need and the app is very stable.'',
     rating = 5, date = ''2024-01-09'', author = ''Jennifer Lee'', helpful = 27, source = ''sample''\<rparr>,
    \<lparr>text' = ''The app has potential but needs work. There are too many ads and the free version is very limited. The premium features are expensive for what you get.'',
     rating = 2, date = ''2024-01-08'', author = ''Alex Martinez'', helpful = 15, source = ''sample''\<rparr>,
    \<lparr>text' = ''I\'m really impressed with this app! It\'s fast, user-friendly, and has all the features I was looking for. The developers are constantly improving it too.'',
     rating = 5, date = ''2024-01-07'', author = ''Chris Anderson'', helpful = 33, source = ''sample''\<rparr>,
    \<lparr>text' = ''Good app, but the interface could be more intuitive. Some features are hidden and hard to find. Once you get used to it though, it\'s quite useful.'',
     rating = 4, date = ''2024-01-06'', author = ''Maria Garcia'', helpful = 19, source = ''sample''\<rparr>]\<close>

definition generateSampleReviews :: \<open>string \<Rightarrow> jsnum \<Rightarrow> review list\<close> where
  \<open>generateSampleReviews appId limit = slice0 sampleReviews (math_min limit (length sampleReviews))\<close>

section \<open>The extraction engine\<close>

text \<open>
  A regular expression object: its \<open>source\<close> text, which \<open>processReviewMatches\<close>
  inspects, and the pattern itself.
\<close>

datatype regexp = RegExp (re_source: string) (re_items: \<open>item list\<close>)

text \<open>The four patterns of \<open>reviewPatterns\<close>, in the order of the source; all carry \<open>gi\<close>.\<close>

definition pattern1 :: regexp where
  \<open>pattern1 = RegExp
     (''<div[^>]*class="[^"]*review[^"]*"[^>]*>(['' @ [bsl] @ ''s'' @ [bsl] @ ''S]*?)<'' @ [bsl] @ ''/div>'')
     (litsI ''<div'' @ [Star (NotC CHR ''>'')] @ litsI ''class="'' @ [Star (NotC dq)] @
      litsI ''review'' @ [Star (NotC dq), One (LitI dq), Star (NotC CHR ''>''), One (LitI CHR ''>''),
      GOpen, Lazy AnyC, GClose] @ litsI ''</div>'')\<close>

definition pattern2 :: regexp where
  \<open>pattern2 = RegExp
     (''<script[^>]*>['' @ [bsl] @ ''s'' @ [bsl] @ ''S]*?"reviews":'' @ [bsl] @ ''s*('' @ [bsl] @ ''[.*?''
        @ [bsl] @ ''])['' @ [bsl] @ ''s'' @ [bsl] @ ''S]*?<'' @ [bsl] @ ''/script>'')
     (litsI ''<script'' @ [Star (NotC CHR ''>''), One (LitI CHR ''>''), Lazy AnyC] @
      litsI ''"reviews":'' @ [Star Space, GOpen, One (LitI CHR ''[''), Lazy Dot, One (LitI CHR '']''),
      GClose, Lazy AnyC] @ litsI ''</script>'')\<close>

definition pattern3 :: regexp where
  \<open>pattern3 = RegExp
     (''<div[^>]*data-testid="[^"]*review[^"]*"[^>]*>(['' @ [bsl] @ ''s'' @ [bsl] @ ''S]*?)<'' @ [bsl] @ ''/div>'')
     (litsI ''<div'' @ [Star (NotC CHR ''>'')] @ litsI ''data-testid="'' @ [Star (NotC dq)] @
      litsI ''review'' @ [Star (NotC dq), One (LitI dq), Star (NotC CHR ''>''), One (LitI CHR ''>''),
      GOpen, Lazy AnyC, GClose] @ litsI ''</div>'')\<close>

definition pattern4 :: regexp where
  \<open>pattern4 = RegExp
     (''"reviewText":'' @ [bsl] @ ''s*"([^"]+)"'')
     (litsI ''"reviewText":'' @ [Star Space, One (LitI dq), GOpen, One (NotC dq), Star (NotC dq),
      GClose, One (LitI dq)])\<close>

definition reviewPatterns :: \<open>regexp list\<close> where
  \<open>reviewPatterns = [pattern1, pattern2, pattern3, pattern4]\<close>

text \<open>The regular expressions of \<open>extractCommentFromHTML\<close>.\<close>

definition tag_re :: \<open>item list\<close> where
  \<comment> \<open>\<open>/<[^>]*>/g\<close>\<close>
  \<open>tag_re = [One (Lit CHR ''<''), Star (NotC CHR ''>''), One (Lit CHR ''>'')]\<close>

definition spaces_re :: \<open>item list\<close> where
  \<comment> \<open>\<open>/\s+/g\<close>\<close>
  \<open>spaces_re = [One Space, Star Space]\<close>

definition rating_re :: \<open>item list\<close> where
  \<comment> \<open>\<open>/rating["\s]*:["\s]*(\d+)/i\<close>\<close>
  \<open>rating_re = litsI ''rating'' @ [Star QuoteOrSpace, One (LitI CHR '':''), Star QuoteOrSpace,
     GOpen, One Digit, Star Digit, GClose]\<close>

definition author_re :: \<open>item list\<close> where
  \<comment> \<open>\<open>/author["\s]*:["\s]*"([^"]+)"/i\<close>\<close>
  \<open>author_re = litsI ''author'' @ [Star QuoteOrSpace, One (LitI CHR '':''), Star QuoteOrSpace,
     One (LitI dq), GOpen, One (NotC dq), Star (NotC dq), GClose, One (LitI dq)]\<close>

text \<open>
  \<open>parseInt\<close> of a non-empty run of decimal digits.  The source compares the result
  with 1 and 5 only, where the rounding of a long run to a double makes no difference.
\<close>

definition digit_val :: \<open>char \<Rightarrow> int\<close> where
  \<open>digit_val c = int (of_char c) - 48\<close>

definition parse_digits :: \<open>string \<Rightarrow> int\<close> where
  \<open>parse_digits ds = foldl (\<lambda>a c. 10 * a + digit_val c) 0 ds\<close>

text \<open>
  \<open>PlayStoreAPI.extractCommentFromHTML\<close>; \<open>None\<close> is the \<open>null\<close> of the source.
  \<open>today\<close> is what \<open>new Date().toISOString().split('T')[0]\<close> gives at the call.
\<close>

definition extractCommentFromHTML :: \<open>string \<Rightarrow> string \<Rightarrow> review option\<close> where
  \<open>extractCommentFromHTML today html =
     (let textContent = trim (replace_g spaces_re '' '' (replace_g tag_re '' '' html)) in
      if textContent = [] \<or> length textContent < 10 then None
      else if str_includes textContent ''Games'' \<and> str_includes textContent ''Apps''
              \<and> str_includes textContent ''Movies'' then None
      else
        let ratingMatch = match_first rating_re html;
            rating = (case ratingMatch of Some ds \<Rightarrow> parse_digits ds | None \<Rightarrow> 0);
            authorMatch = match_first author_re html;
            author = (case authorMatch of Some a \<Rightarrow> a | None \<Rightarrow> ''Unknown'')
        in Some \<lparr>text' = textContent,
                 rating = (if 1 \<le> rating \<and> rating \<le> 5 then rating else 0),
                 date = today, author = author, helpful = 0, source = ''html''\<rparr>)\<close>

text \<open>
  \<open>JSON.parse\<close> belongs to the language, not to the repository.  The model keeps what
  the grammar of JSON fixes for every input (the first character after white space starts
  a value, and \<open>undefined\<close> is read as the text \<open>undefined\<close>) and takes the parser
  proper as a parameter.  The parser's result is seen as the callback of the source reads
  it: not an array, or an array of entries, each \<open>null\<close> or an object with the ten fields
  the callback looks at, present or not.
\<close>

record raw_review =
  r_text :: \<open>string option\<close>
  r_reviewText :: \<open>string option\<close>
  r_rating :: \<open>int option\<close>
  r_starRating :: \<open>int option\<close>
  r_date :: \<open>string option\<close>
  r_reviewDate :: \<open>string option\<close>
  r_author :: \<open>string option\<close>
  r_userName :: \<open>string option\<close>
  r_helpful :: \<open>int option\<close>
  r_helpfulCount :: \<open>int option\<close>

datatype entry = NullEntry | Object raw_review

datatype parsed = NotArray | Entries \<open>entry list\<close>

definition json_space :: \<open>char \<Rightarrow> bool\<close> where
  \<open>json_space c = (c \<in> set [CHR 0x09, CHR 0x0A, CHR 0x0D, CHR 0x20])\<close>

definition json_start :: \<open>char \<Rightarrow> bool\<close> where
  \<open>json_start c = (c \<in> set ''{["-0123456789tfn'')\<close>

definition JSON_parse :: \<open>(string \<Rightarrow> parsed option) \<Rightarrow> string option \<Rightarrow> parsed option\<close> where
  \<open>JSON_parse parser arg =
     (let s = (case arg of None \<Rightarrow> ''undefined'' | Some t \<Rightarrow> t) in
      case dropWhile json_space s of
        [] \<Rightarrow> None
      | c # cs \<Rightarrow> if json_start c then parser s else None)\<close>

text \<open>\<open>a || b || d\<close> on strings (the empty string is falsy) and on numbers (0 is falsy).\<close>

definition str_or :: \<open>string option \<Rightarrow> string option \<Rightarrow> string \<Rightarrow> string\<close> where
  \<open>str_or a b d =
     (case a of Some x \<Rightarrow> if x \<noteq> [] then x else (case b of Some y \<Rightarrow> if y \<noteq> [] then y else d | None \<Rightarrow> d)
      | None \<Rightarrow> (case b of Some y \<Rightarrow> if y \<noteq> [] then y else d | None \<Rightarrow> d))\<close>

definition num_or :: \<open>int option \<Rightarrow> int option \<Rightarrow> int \<Rightarrow> int\<close> where
  \<open>num_or a b d =
     (case a of Some x \<Rightarrow> if x \<noteq> 0 then x else (case b of Some y \<Rightarrow> if y \<noteq> 0 then y else d | None \<Rightarrow> d)
      | None \<Rightarrow> (case b of Some y \<Rightarrow> if y \<noteq> 0 then y else d | None \<Rightarrow> d))\<close>

definition truthy_str :: \<open>string option \<Rightarrow> bool\<close> where
  \<open>truthy_str a = (case a of Some x \<Rightarrow> x \<noteq> [] | None \<Rightarrow> False)\<close>

text \<open>\<open>xs[i]\<close>: \<open>undefined\<close> out of range.\<close>

definition nth_opt :: \<open>'a list \<Rightarrow> nat \<Rightarrow> 'a option\<close> where
  \<open>nth_opt xs i = (if i < length xs then Some (xs ! i) else None)\<close>

text \<open>
  The three \<open>forEach\<close> loops of \<open>processReviewMatches\<close>, each over the local array
  \<open>comments\<close>.  Reading a property of \<open>null\<close> throws; the \<open>catch\<close> around the loop keeps
  the records pushed so far.
\<close>

fun each_entry :: \<open>string \<Rightarrow> jsnum \<Rightarrow> entry list \<Rightarrow> review list \<Rightarrow> review list\<close> where
  \<open>each_entry today limit [] comments = comments\<close>
| \<open>each_entry today limit (e # es) comments =
     (if length_ge (length comments) limit then each_entry today limit es comments
      else (case e of
              NullEntry \<Rightarrow> comments
            | Object r \<Rightarrow>
                each_entry today limit es
                  (if truthy_str (r_text r) \<or> truthy_str (r_reviewText r)
                   then comments @
                     [\<lparr>text' = str_or (r_text r) (r_reviewText r) ''No text available'',
                       rating = num_or (r_rating r) (r_starRating r) 0,
                       date = str_or (r_date r) (r_reviewDate r) today,
                       author = str_or (r_author r) (r_userName r) ''Unknown'',
                       helpful = num_or (r_helpful r) (r_helpfulCount r) 0,
                       source = ''api''\<rparr>]
                   else comments)))\<close>

fun each_text :: \<open>string \<Rightarrow> jsnum \<Rightarrow> nat \<Rightarrow> string list \<Rightarrow> review list \<Rightarrow> review list\<close> where
  \<open>each_text today limit index [] comments = comments\<close>
| \<open>each_text today limit index (match # rest) comments =
     each_text today limit (Suc index) rest
       (if length_ge (length comments) limit then comments
        else if index > 0
        then comments @
          [\<lparr>text' = match, rating = 0, date = today, author = ''Unknown'', helpful = 0,
            source = ''api''\<rparr>]
        else comments)\<close>

fun each_container :: \<open>string \<Rightarrow> jsnum \<Rightarrow> string list \<Rightarrow> review list \<Rightarrow> review list\<close> where
  \<open>each_container today limit [] comments = comments\<close>
| \<open>each_container today limit (match # rest) comments =
     each_container today limit rest
       (if length_ge (length comments) limit then comments
        else (case extractCommentFromHTML today match of
                None \<Rightarrow> comments
              | Some comment \<Rightarrow> if text' comment \<noteq> [] then comments @ [comment] else comments))\<close>

text \<open>
  \<open>PlayStoreAPI.processReviewMatches\<close>.  \<open>matches\<close> is the array that
  \<open>html.match(pattern)\<close> returned: for a \<open>g\<close> pattern, the texts of the matches.
\<close>

definition processReviewMatches ::
  \<open>(string \<Rightarrow> parsed option) \<Rightarrow> string \<Rightarrow> string list \<Rightarrow> regexp \<Rightarrow> jsnum \<Rightarrow> review list\<close> where
  \<open>processReviewMatches parser today matches pattern limit =
     (if str_includes (re_source pattern) ''reviews''
      then (case JSON_parse parser (nth_opt matches 1) of
              None \<Rightarrow> []
            | Some NotArray \<Rightarrow> []
            | Some (Entries reviewsData) \<Rightarrow> each_entry today limit reviewsData [])
      else if str_includes (re_source pattern) ''reviewText''
      then each_text today limit 0 matches []
      else each_container today limit matches [])\<close>

text \<open>The loop of \<open>extractReviewsFromHTML\<close> over the patterns, with its \<open>break\<close>.\<close>

fun run_patterns ::
  \<open>(string \<Rightarrow> parsed option) \<Rightarrow> string \<Rightarrow> string \<Rightarrow> jsnum \<Rightarrow> regexp list \<Rightarrow> review list \<Rightarrow> review list\<close> where
  \<open>run_patterns parser today html limit [] comments = comments\<close>
| \<open>run_patterns parser today html limit (pattern # rest) comments =
     (let matches = match_g (re_items pattern) html in
      if matches = [] then run_patterns parser today html limit rest comments
      else
        let comments' = comments @ processReviewMatches parser today matches pattern limit in
        if length_ge (length comments') limit then comments'
        else run_patterns parser today html limit rest comments')\<close>

text \<open>
  The body of an upstream response as \<open>response.data\<close> holds it: a string, or a value
  that is not a string (a body that the HTTP client has parsed).  On a value that is not
  a string \<open>html.match\<close> throws a \<open>TypeError\<close>, which the \<open>catch\<close> of
  \<open>extractReviewsFromHTML\<close> turns into the empty array.
\<close>

datatype body = Text string | NonText

definition extractReviewsFromHTML ::
  \<open>(string \<Rightarrow> parsed option) \<Rightarrow> string \<Rightarrow> body \<Rightarrow> jsnum \<Rightarrow> review list\<close> where
  \<open>extractReviewsFromHTML parser today html limit =
     (case html of
        NonText \<Rightarrow> []
      | Text s \<Rightarrow> slice0 (run_patterns parser today s limit reviewPatterns []) limit)\<close>

section \<open>Retrieval strategies and the fetch orchestrator\<close>

text \<open>
  A request as \<open>axios.get\<close> receives it, and what comes back: the promise is rejected
  (\<open>Failed\<close>: no connection, a timeout, a status the client refuses), or a response with
  its status and body arrives.
\<close>

record request =
  url :: string
  headers :: \<open>(string \<times> string) list\<close>
  timeout :: nat
  maxRedirects :: \<open>nat option\<close>

datatype http_outcome = Failed string | Response nat body

text \<open>
  The world outside the process: the upstream site, as a function of the request; the
  calendar date and the instant the clock shows; and the parser proper of \<open>JSON.parse\<close>.
\<close>

record world =
  w_http :: \<open>request \<Rightarrow> http_outcome\<close>
  w_today :: string
  w_now :: string
  w_parser :: \<open>string \<Rightarrow> parsed option\<close>

text \<open>How a call ends: it throws (an \<open>async\<close> function rejects), or it returns.\<close>

datatype 'a outcome = Raised string | Returned 'a

definition baseUrl :: string where
  \<open>baseUrl = ''https://play.google.com''\<close>

definition userAgent :: string where
  \<open>userAgent = ''Mozilla/5.0 (Windows NT 10.0; Win64; x64) AppleWebKit/537.36 (KHTML, like Gecko) Chrome/91.0.4472.124 Safari/537.36''\<close>

text \<open>
  \<open>getSortParameter\<close>: \<open>sortMap[sort] || '0'\<close>.  (A \<open>sort\<close> that names a member every
  object inherits, such as \<open>constructor\<close>, is outside the model; it only changes the
  text of the URL.)
\<close>

definition getSortParameter :: \<open>string \<Rightarrow> string\<close> where
  \<open>getSortParameter sort' =
     (case map_of [(''recent'', ''0''), (''rating'', ''1''), (''helpfulness'', ''2'')] sort' of
        Some v \<Rightarrow> v
      | None \<Rightarrow> ''0'')\<close>

definition buildAppPageUrl :: \<open>string \<Rightarrow> string \<Rightarrow> string \<Rightarrow> string \<Rightarrow> string\<close> where
  \<open>buildAppPageUrl appId sort' language country =
     baseUrl @ ''/store/apps/details?id='' @ appId @ ''&hl='' @ language @ ''&gl='' @ country
       @ ''&sort='' @ getSortParameter sort'\<close>

definition page_request :: \<open>string \<Rightarrow> string \<Rightarrow> string \<Rightarrow> string \<Rightarrow> request\<close> where
  \<open>page_request appId sort' language country =
     \<lparr>url = buildAppPageUrl appId sort' language country,
      headers =
        [(''User-Agent'', userAgent),
         (''Accept'', ''text/html,application/xhtml+xml,application/xml;q=0.9,image/webp,*/*;q=0.8''),
         (''Accept-Language'', language @ ''-'' @ country @ '','' @ language @ '';q=0.9,en;q=0.8''),
         (''Accept-Encoding'', ''gzip, deflate''),
         (''Connection'', ''keep-alive''),
         (''Upgrade-Insecure-Requests'', ''1'')],
      timeout = 30000,
      maxRedirects = Some 5\<rparr>\<close>

definition alternative_request :: \<open>string \<Rightarrow> string \<Rightarrow> string \<Rightarrow> request\<close> where
  \<open>alternative_request appId language country =
     \<lparr>url = baseUrl @ ''/store/apps/details?id='' @ appId @ ''&showAllReviews=true&hl='' @ language
              @ ''&gl='' @ country,
      headers =
        [(''User-Agent'', userAgent),
         (''Accept'', ''text/html,application/xhtml+xml,application/xml;q=0.9,image/webp,*/*;q=0.8'')],
      timeout = 30000,
      maxRedirects = None\<rparr>\<close>

text \<open>
  \<open>fetchReviewsFromPage\<close> and \<open>fetchReviewsAlternative\<close>.  Each sends one request, which
  the model appends to the log of requests sent so far; a rejected request and a status
  other than 200 end in the \<open>catch\<close>, which returns the empty array.
\<close>

definition fetchReviewsFromPage ::
  \<open>world \<Rightarrow> string \<Rightarrow> jsnum \<Rightarrow> string \<Rightarrow> string \<Rightarrow> string \<Rightarrow> request list
     \<Rightarrow> review list outcome \<times> request list\<close> where
  \<open>fetchReviewsFromPage w appId limit sort' language country log =
     (let req = page_request appId sort' language country in
      (case w_http w req of
         Failed e \<Rightarrow> Returned []
       | Response status data \<Rightarrow>
           if status \<noteq> 200 then Returned []
           else Returned (extractReviewsFromHTML (w_parser w) (w_today w) data limit),
       log @ [req]))\<close>

definition fetchReviewsAlternative ::
  \<open>world \<Rightarrow> string \<Rightarrow> jsnum \<Rightarrow> string \<Rightarrow> string \<Rightarrow> string \<Rightarrow> request list
     \<Rightarrow> review list outcome \<times> request list\<close> where
  \<open>fetchReviewsAlternative w appId limit sort' language country log =
     (let req = alternative_request appId language country in
      (case w_http w req of
         Failed e \<Rightarrow> Returned []
       | Response status data \<Rightarrow>
           if status \<noteq> 200 then Returned []
           else Returned (extractReviewsFromHTML (w_parser w) (w_today w) data limit),
       log @ [req]))\<close>

text \<open>
  The body of \<open>fetchComments\<close> after its options are read, over the two calls it awaits:
  \<open>primary\<close> and \<open>secondary\<close> take the log and return how the call ended and the new
  log.  The \<open>catch\<close> of the source is the \<open>Raised\<close> branches.
\<close>

definition fetchComments_with ::
  \<open>(request list \<Rightarrow> review list outcome \<times> request list)
     \<Rightarrow> (request list \<Rightarrow> review list outcome \<times> request list)
     \<Rightarrow> string \<Rightarrow> jsnum \<Rightarrow> request list \<Rightarrow> review list outcome \<times> request list\<close> where
  \<open>fetchComments_with primary secondary appId limit log =
     (case primary log of
        (Raised e, log1) \<Rightarrow> (Returned (generateSampleReviews appId limit), log1)
      | (Returned comments1, log1) \<Rightarrow>
          if length comments1 = 0
          then (case secondary log1 of
                  (Raised e, log2) \<Rightarrow> (Returned (generateSampleReviews appId limit), log2)
                | (Returned comments2, log2) \<Rightarrow>
                    if length comments2 = 0
                    then (Returned (generateSampleReviews appId limit), log2)
                    else (Returned comments2, log2))
          else (Returned comments1, log1))\<close>

text \<open>The options object: a field is absent (or \<open>undefined\<close>) or given.\<close>

record options =
  o_limit :: \<open>jsnum option\<close>
  o_sort :: \<open>string option\<close>
  o_language :: \<open>string option\<close>
  o_country :: \<open>string option\<close>

definition or_default :: \<open>'a option \<Rightarrow> 'a \<Rightarrow> 'a\<close> where
  \<open>or_default v d = (case v of None \<Rightarrow> d | Some x \<Rightarrow> x)\<close>

definition fetchComments ::
  \<open>world \<Rightarrow> string \<Rightarrow> options \<Rightarrow> request list \<Rightarrow> review list outcome \<times> request list\<close> where
  \<open>fetchComments w appId opts log =
     (let limit = or_default (o_limit opts) (Fin 50);
          sort' = or_default (o_sort opts) ''recent'';
          language = or_default (o_language opts) ''en'';
          country = or_default (o_country opts) ''US''
      in fetchComments_with
           (fetchReviewsFromPage w appId limit sort' language country)
           (fetchReviewsAlternative w appId limit sort' language country)
           appId limit log)\<close>

section \<open>Printing numbers\<close>

text \<open>The decimal digits of a natural number, as \<open>ToString\<close> writes an index or a count.\<close>

definition digit_char :: \<open>nat \<Rightarrow> char\<close> where
  \<open>digit_char d = ''0123456789'' ! d\<close>

fun show_nat :: \<open>nat \<Rightarrow> string\<close> where
  \<open>show_nat n = (if n < 10 then [digit_char n] else show_nat (n div 10) @ [digit_char (n mod 10)])\<close>

text \<open>
  \<open>(p / q).toFixed(2)\<close> for integers \<open>p \<ge> 0\<close> and \<open>q > 0\<close>, in integer arithmetic.
  The quotient of two doubles is the double nearest to the exact quotient, ties to the
  even significand: with \<open>2 ^ e \<le> p / q < 2 ^ (e + 1)\<close> it is \<open>m / 2 ^ s\<close> for
  \<open>s = 52 - e\<close> and \<open>m\<close> the integer nearest to \<open>p * 2 ^ s / q\<close>.  \<open>toFixed(2)\<close>
  then takes the integer \<open>n\<close> nearest to a hundred times that double, the larger one on a
  tie, and writes \<open>n\<close> with a point before its last two digits.  (Both \<open>p\<close> and \<open>q\<close>
  are below \<open>2 ^ 53\<close> and the quotient is below \<open>10 ^ 21\<close>, where the doubles hold the
  integers exactly and \<open>toFixed\<close> does not switch to the exponent notation.)
\<close>

fun bitlen :: \<open>nat \<Rightarrow> nat\<close> where
  \<open>bitlen n = (if n = 0 then 0 else Suc (bitlen (n div 2)))\<close>

definition quotient_ge_pow2 :: \<open>nat \<Rightarrow> nat \<Rightarrow> int \<Rightarrow> bool\<close> where
  \<comment> \<open>\<open>2 ^ k \<le> p / q\<close>\<close>
  \<open>quotient_ge_pow2 p q k = (if 0 \<le> k then q * 2 ^ nat k \<le> p else q \<le> p * 2 ^ nat (- k))\<close>

definition round_half_even :: \<open>nat \<Rightarrow> nat \<Rightarrow> nat\<close> where
  \<comment> \<open>the integer nearest to \<open>a / b\<close>, the even one on a tie\<close>
  \<open>round_half_even a b =
     (let f = a div b; r = a mod b in
      if 2 * r < b then f else if b < 2 * r then f + 1 else if even f then f else f + 1)\<close>

definition double_div :: \<open>nat \<Rightarrow> nat \<Rightarrow> nat \<times> int\<close> where
  \<comment> \<open>\<open>(m, s)\<close>: the double \<open>p / q\<close> is \<open>m / 2 ^ s\<close>; for \<open>p > 0\<close>\<close>
  \<open>double_div p q =
     (let k = int (bitlen p) - int (bitlen q);
          e = (if quotient_ge_pow2 p q k then k else k - 1);
          s = 52 - e;
          m = (if 0 \<le> s then round_half_even (p * 2 ^ nat s) q
               else round_half_even p (q * 2 ^ nat (- s)))
      in (m, s))\<close>

definition hundredths :: \<open>nat \<times> int \<Rightarrow> nat\<close> where
  \<comment> \<open>the integer nearest to \<open>100 * m / 2 ^ s\<close>, the larger one on a tie\<close>
  \<open>hundredths d =
     (case d of (m, s) \<Rightarrow>
        if 0 \<le> s then (200 * m + 2 ^ nat s) div 2 ^ (nat s + 1) else 100 * m * 2 ^ nat (- s))\<close>

definition fixed2 :: \<open>nat \<Rightarrow> string\<close> where
  \<open>fixed2 n = show_nat (n div 100) @ ''.'' @ [digit_char (n mod 100 div 10), digit_char (n mod 10)]\<close>

definition toFixed2 :: \<open>int \<Rightarrow> nat \<Rightarrow> string\<close> where
  \<open>toFixed2 p q =
     (if p = 0 then ''0.00''
      else if p < 0 then ''-'' @ fixed2 (hundredths (double_div (nat (- p)) q))
      else fixed2 (hundredths (double_div (nat p) q)))\<close>

section \<open>Validation middleware\<close>

text \<open>
  \<open>parseInt\<close> of a string: leading white space, a sign, an optional \<open>0x\<close> prefix, then
  the longest run of digits; \<open>NaN\<close> when the run is empty.  (A run too long for a double
  to hold exactly is outside the model.)
\<close>

definition is_hex_digit :: \<open>char \<Rightarrow> bool\<close> where
  \<open>is_hex_digit c = (c \<in> set ''0123456789abcdefABCDEF'')\<close>

definition hex_val :: \<open>char \<Rightarrow> int\<close> where
  \<open>hex_val c =
     (if is_digit c then digit_val c
      else if c \<in> set ''abcdef'' then int (of_char c) - 87
      else int (of_char c) - 55)\<close>

definition parse_hex :: \<open>string \<Rightarrow> int\<close> where
  \<open>parse_hex ds = foldl (\<lambda>a c. 16 * a + hex_val c) 0 ds\<close>

definition parseInt :: \<open>string \<Rightarrow> jsnum\<close> where
  \<open>parseInt input =
     (let s = dropWhile is_space input;
          negative = starts_with s ''-'';
          s1 = (if starts_with s ''-'' \<or> starts_with s ''+'' then drop 1 s else s);
          hex = (starts_with s1 ''0x'' \<or> starts_with s1 ''0X'');
          s2 = (if hex then drop 2 s1 else s1);
          ds = takeWhile (if hex then is_hex_digit else is_digit) s2;
          v = (if hex then parse_hex ds else parse_digits ds)
      in if ds = [] then NaN else Fin (if negative then - v else v))\<close>

text \<open>
  A query parameter is absent or a string.  \<open>parseInt(limit)\<close> after
  \<open>const { limit = d } = req.query\<close>: the default \<open>d\<close> is a number.
\<close>

definition parseInt_or :: \<open>string option \<Rightarrow> int \<Rightarrow> jsnum\<close> where
  \<open>parseInt_or v d = (case v of None \<Rightarrow> Fin d | Some s \<Rightarrow> parseInt s)\<close>

text \<open>
  A value in a JSON body, as far as the code looks at it: a string; a value that is not
  a string, given by the text that its conversion to a string yields (a number, a boolean,
  \<open>null\<close>, an array); or a value whose conversion to a string throws a \<open>TypeError\<close>
  (an object whose own \<open>toString\<close> is not a function, as in \<open>{"toString": 1}\<close>).
  Template literals, \<open>parseInt\<close> and property keys all go through this conversion.
\<close>

datatype json_value = JString string | JOther string | JUnprintable

definition cannot_convert :: string where
  \<open>cannot_convert = ''Cannot convert object to primitive value''\<close>

fun to_text :: \<open>json_value \<Rightarrow> string outcome\<close> where
  \<open>to_text (JString s) = Returned s\<close>
| \<open>to_text (JOther s) = Returned s\<close>
| \<open>to_text JUnprintable = Raised cannot_convert\<close>

text \<open>
  What a handler or a middleware sends: the status and the JSON body.  \<open>None\<close> from a
  middleware is its call of \<open>next()\<close>.
\<close>

record comments_data =
  c_appId :: string
  c_totalComments :: nat
  c_comments :: \<open>review list\<close>
  c_fetchedAt :: string
  c_limit :: jsnum
  c_sort :: string

record batch_result =
  br_appId :: json_value
  br_success :: bool
  br_totalComments :: nat
  br_comments :: \<open>review list\<close>

record batch_error =
  be_appId :: json_value
  be_success :: bool
  be_error :: string

record batch_data =
  totalApps :: nat
  successful :: nat
  failed :: nat
  results :: \<open>batch_result list\<close>
  errors :: \<open>batch_error list\<close>
  b_fetchedAt :: string
  b_limit :: jsnum
  b_sort :: json_value

datatype average = AvgNumber int | AvgString string

record stats =
  totalComments :: nat
  ratingDistribution :: \<open>(int \<times> nat) list\<close>
  dateDistribution :: \<open>(string \<times> nat) list\<close>
  averageRating :: average
  totalRating :: int

record stats_data =
  s_appId :: string
  s_stats :: stats
  s_fetchedAt :: string
  s_sampleSize :: nat

datatype payload =
    ErrorBody string \<open>string option\<close>
  | CommentsBody comments_data
  | BatchBody batch_data
  | StatsBody stats_data

record response =
  status :: nat
  payload :: payload

text \<open>\<open>/^[a-zA-Z0-9][a-zA-Z0-9._-]{2,99}$/.test(appId)\<close>\<close>

definition is_alnum :: \<open>char \<Rightarrow> bool\<close> where
  \<open>is_alnum c =
     (c \<in> set ''abcdefghijklmnopqrstuvwxyzABCDEFGHIJKLMNOPQRSTUVWXYZ0123456789'')\<close>

definition appIdPattern_test :: \<open>string \<Rightarrow> bool\<close> where
  \<open>appIdPattern_test s =
     (case s of
        [] \<Rightarrow> False
      | c # r \<Rightarrow> is_alnum c \<and> 2 \<le> length r \<and> length r \<le> 99
                 \<and> list_all (\<lambda>x. is_alnum x \<or> x \<in> set ''._-'') r)\<close>

definition validateAppId :: \<open>string \<Rightarrow> response option\<close> where
  \<open>validateAppId appId =
     (if appId = [] then
        Some \<lparr>status = 400, payload = ErrorBody ''App ID is required'' None\<rparr>
      else if \<not> appIdPattern_test appId then
        Some \<lparr>status = 400, payload = ErrorBody ''Invalid app ID format''
          (Some ''App ID should contain only letters, numbers, dots, underscores, and hyphens, starting with a letter or number'')\<rparr>
      else if str_includes appId ''..'' \<or> str_includes appId ''__'' \<or> str_includes appId ''--'' then
        Some \<lparr>status = 400, payload = ErrorBody ''Invalid app ID format''
          (Some ''App ID cannot contain consecutive dots, underscores, or hyphens'')\<rparr>
      else None)\<close>

definition validSortOptions :: \<open>string list\<close> where
  \<open>validSortOptions = [''recent'', ''rating'', ''helpfulness'']\<close>

text \<open>\<open>isNaN(limitNum) || limitNum < 1 || limitNum > hi\<close>\<close>

fun limit_out_of_range :: \<open>jsnum \<Rightarrow> int \<Rightarrow> bool\<close> where
  \<open>limit_out_of_range NaN hi = True\<close>
| \<open>limit_out_of_range (Fin n) hi = (n < 1 \<or> n > hi)\<close>

definition validateCommentParams :: \<open>string option \<Rightarrow> string option \<Rightarrow> response option\<close> where
  \<open>validateCommentParams limit sort' =
     (if limit \<noteq> None \<and> limit_out_of_range (parseInt (the limit)) 200 then
        Some \<lparr>status = 400, payload = ErrorBody ''Invalid limit parameter''
          (Some ''Limit must be a number between 1 and 200'')\<rparr>
      else if sort' \<noteq> None \<and> the sort' \<notin> set validSortOptions then
        Some \<lparr>status = 400, payload = ErrorBody ''Invalid sort parameter''
          (Some ''Sort must be one of: recent, rating, helpfulness'')\<rparr>
      else None)\<close>

text \<open>
  The body of a batch request.  \<open>appIds\<close> is absent or not an array (\<open>None\<close>), or an
  array of values; \<open>limit\<close> and \<open>sort\<close> are absent or values.  \<open>parseInt(limit)\<close>
  converts the value to a string first, and throws when that conversion does.
\<close>

record batch_body =
  bb_appIds :: \<open>json_value list option\<close>
  bb_limit :: \<open>json_value option\<close>
  bb_sort :: \<open>json_value option\<close>

definition parseInt_value :: \<open>json_value \<Rightarrow> jsnum outcome\<close> where
  \<open>parseInt_value v = (case to_text v of Raised e \<Rightarrow> Raised e | Returned s \<Rightarrow> Returned (parseInt s))\<close>

text \<open>\<open>validSortOptions.includes(sort)\<close> compares without conversion.\<close>

fun valid_sort :: \<open>json_value \<Rightarrow> bool\<close> where
  \<open>valid_sort (JString s) = (s \<in> set validSortOptions)\<close>
| \<open>valid_sort (JOther s) = False\<close>
| \<open>valid_sort JUnprintable = False\<close>

text \<open>The loop of \<open>validateBatchRequest\<close> over the identifiers, from index \<open>i\<close>.\<close>

fun validate_each :: \<open>nat \<Rightarrow> json_value list \<Rightarrow> response option\<close> where
  \<open>validate_each i [] = None\<close>
| \<open>validate_each i (JString appId # rest) =
     (if trim appId = [] then
        Some \<lparr>status = 400, payload = ErrorBody (''Invalid app ID at index '' @ show_nat i)
          (Some ''App ID must be a non-empty string'')\<rparr>
      else if \<not> appIdPattern_test (trim appId) then
        Some \<lparr>status = 400, payload = ErrorBody (''Invalid app ID format at index '' @ show_nat i)
          (Some ''App ID should contain only letters, numbers, dots, underscores, and hyphens, starting with a letter or number'')\<rparr>
      else if str_includes appId ''..'' \<or> str_includes appId ''__'' \<or> str_includes appId ''--'' then
        Some \<lparr>status = 400, payload = ErrorBody (''Invalid app ID format at index '' @ show_nat i)
          (Some ''App ID cannot contain consecutive dots, underscores, or hyphens'')\<rparr>
      else validate_each (Suc i) rest)\<close>
| \<open>validate_each i (v # rest) =
     Some \<lparr>status = 400, payload = ErrorBody (''Invalid app ID at index '' @ show_nat i)
       (Some ''App ID must be a non-empty string'')\<rparr>\<close>

text \<open>
  \<open>validateBatchRequest\<close>.  It returns with a response or with \<open>next()\<close>, or
  \<open>parseInt(limit)\<close> throws.
\<close>

definition validateBatchRequest :: \<open>batch_body \<Rightarrow> response option outcome\<close> where
  \<open>validateBatchRequest body =
     (case bb_appIds body of
        None \<Rightarrow> Returned (Some \<lparr>status = 400, payload = ErrorBody ''appIds must be an array'' None\<rparr>)
      | Some appIds \<Rightarrow>
          if length appIds = 0 then
            Returned (Some \<lparr>status = 400, payload = ErrorBody ''appIds array cannot be empty'' None\<rparr>)
          else if length appIds > 10 then
            Returned (Some \<lparr>status = 400,
              payload = ErrorBody ''Maximum 10 apps allowed per batch request'' None\<rparr>)
          else (case validate_each 0 appIds of
                  Some r \<Rightarrow> Returned (Some r)
                | None \<Rightarrow>
                    (case (case bb_limit body of
                             None \<Rightarrow> Returned False
                           | Some v \<Rightarrow>
                               (case parseInt_value v of
                                  Raised e \<Rightarrow> Raised e
                                | Returned limitNum \<Rightarrow> Returned (limit_out_of_range limitNum 100))) of
                       Raised e \<Rightarrow> Raised e
                     | Returned True \<Rightarrow>
                         Returned (Some \<lparr>status = 400, payload = ErrorBody ''Invalid limit parameter''
                           (Some ''Limit must be a number between 1 and 100 for batch requests'')\<rparr>)
                     | Returned False \<Rightarrow>
                         if bb_sort body \<noteq> None \<and> \<not> valid_sort (the (bb_sort body)) then
                           Returned (Some \<lparr>status = 400, payload = ErrorBody ''Invalid sort parameter''
                             (Some ''Sort must be one of: recent, rating, helpfulness'')\<rparr>)
                         else Returned None)))\<close>

section \<open>Request handlers\<close>

text \<open>
  \<open>GET /:appId\<close>.  The route mounts \<open>validateAppId\<close> and the handler; the handler reads
  \<open>limit\<close> and \<open>sort\<close> from the query and calls \<open>fetchComments\<close>.
\<close>

record comments_request =
  p_appId :: string
  q_limit :: \<open>string option\<close>
  q_sort :: \<open>string option\<close>

definition get_comments_handler :: \<open>world \<Rightarrow> comments_request \<Rightarrow> response\<close> where
  \<open>get_comments_handler w req =
     (let appId = p_appId req;
          limit = parseInt_or (q_limit req) 50;
          sort' = or_default (q_sort req) ''recent''
      in case fst (fetchComments w appId
                     \<lparr>o_limit = Some limit, o_sort = Some sort', o_language = None, o_country = None\<rparr> []) of
           Raised e \<Rightarrow> \<lparr>status = 500, payload = ErrorBody ''Failed to fetch comments'' (Some e)\<rparr>
         | Returned comments \<Rightarrow>
             \<lparr>status = 200,
              payload = CommentsBody
                \<lparr>c_appId = appId, c_totalComments = length comments, c_comments = comments,
                 c_fetchedAt = w_now w, c_limit = limit, c_sort = sort'\<rparr>\<rparr>)\<close>

definition get_comments :: \<open>world \<Rightarrow> comments_request \<Rightarrow> response\<close> where
  \<open>get_comments w req =
     (case validateAppId (p_appId req) of
        Some r \<Rightarrow> r
      | None \<Rightarrow> get_comments_handler w req)\<close>

text \<open>
  \<open>fetchComments\<close> as the batch handler calls it, on values of the body.  An
  identifier that cannot be converted to a string makes the template literal of the first
  log line throw, inside the \<open>try\<close>, and the template literal of the \<open>catch\<close> throw
  again: the call rejects, having sent nothing.  A \<open>sort\<close> that cannot be converted makes
  \<open>sortMap[sort]\<close> throw inside \<open>fetchReviewsFromPage\<close>, whose \<open>catch\<close> returns the
  empty array before any request is sent; \<open>fetchReviewsAlternative\<close> does not read
  \<open>sort\<close>.  Otherwise the call is \<open>fetchComments\<close> on the texts.
\<close>

definition fetchComments_value ::
  \<open>world \<Rightarrow> json_value \<Rightarrow> jsnum \<Rightarrow> json_value \<Rightarrow> request list
     \<Rightarrow> review list outcome \<times> request list\<close> where
  \<open>fetchComments_value w appId limit sort' trace =
     (case to_text appId of
        Raised e \<Rightarrow> (Raised e, trace)
      | Returned a \<Rightarrow>
          (case to_text sort' of
             Returned s \<Rightarrow>
               fetchComments w a
                 \<lparr>o_limit = Some limit, o_sort = Some s, o_language = None, o_country = None\<rparr> trace
           | Raised e \<Rightarrow>
               fetchComments_with (\<lambda>t. (Returned [], t))
                 (fetchReviewsAlternative w a limit ''recent'' ''en'' ''US'') a limit trace))\<close>

text \<open>
  \<open>POST /batch\<close>.  The route mounts the handler alone.  Every identifier gets its own
  \<open>async\<close> callback, which evaluates \<open>parseInt(limit)\<close> and calls \<open>fetchComments\<close>
  inside its \<open>try\<close>; it pushes onto \<open>results\<close> when the call returns and onto
  \<open>errors\<close> when either throws.  The callbacks finish in some order, \<open>finished\<close>, a
  list of positions in \<open>appIds\<close>.  The response evaluates \<open>parseInt(limit)\<close> once more,
  and the \<open>catch\<close> of the handler answers 500 when that throws.
\<close>

definition batch_limit :: \<open>json_value option \<Rightarrow> jsnum outcome\<close> where
  \<open>batch_limit v = (case v of None \<Rightarrow> Returned (Fin 20) | Some x \<Rightarrow> parseInt_value x)\<close>

fun batch_callbacks ::
  \<open>world \<Rightarrow> json_value list \<Rightarrow> json_value option \<Rightarrow> json_value \<Rightarrow> nat list
     \<Rightarrow> batch_result list \<times> batch_error list \<Rightarrow> batch_result list \<times> batch_error list\<close> where
  \<open>batch_callbacks w appIds limit sort' [] acc = acc\<close>
| \<open>batch_callbacks w appIds limit sort' (i # finished) acc =
     batch_callbacks w appIds limit sort' finished
       (case batch_limit limit of
          Raised e \<Rightarrow>
            (fst acc, snd acc @ [\<lparr>be_appId = appIds ! i, be_success = False, be_error = e\<rparr>])
        | Returned l \<Rightarrow>
            (case fst (fetchComments_value w (appIds ! i) l sort' []) of
               Returned comments \<Rightarrow>
                 (fst acc @ [\<lparr>br_appId = appIds ! i, br_success = True,
                              br_totalComments = length comments, br_comments = comments\<rparr>],
                  snd acc)
             | Raised e \<Rightarrow>
                 (fst acc, snd acc @ [\<lparr>be_appId = appIds ! i, be_success = False, be_error = e\<rparr>])))\<close>

definition post_batch :: \<open>world \<Rightarrow> nat list \<Rightarrow> batch_body \<Rightarrow> response\<close> where
  \<open>post_batch w finished body =
     (case bb_appIds body of
        None \<Rightarrow> \<lparr>status = 400, payload = ErrorBody ''appIds array is required and must not be empty'' None\<rparr>
      | Some appIds \<Rightarrow>
          if length appIds = 0 then
            \<lparr>status = 400, payload = ErrorBody ''appIds array is required and must not be empty'' None\<rparr>
          else if length appIds > 10 then
            \<lparr>status = 400, payload = ErrorBody ''Maximum 10 apps allowed per batch request'' None\<rparr>
          else
            let sort' = or_default (bb_sort body) (JString ''recent'');
                pushed = batch_callbacks w appIds (bb_limit body) sort' finished ([], [])
            in case batch_limit (bb_limit body) of
                 Raised e \<Rightarrow>
                   \<lparr>status = 500, payload = ErrorBody ''Failed to process batch request'' (Some e)\<rparr>
               | Returned limit \<Rightarrow>
                   \<lparr>status = 200,
                    payload = BatchBody
                      \<lparr>totalApps = length appIds, successful = length (fst pushed),
                       failed = length (snd pushed), results = fst pushed, errors = snd pushed,
                       b_fetchedAt = w_now w, b_limit = limit, b_sort = sort'\<rparr>\<rparr>)\<close>

text \<open>
  \<open>GET /:appId/stats\<close>.  An object that counts by key is an association list;
  \<open>bump\<close> is \<open>o[k] = (o[k] || 0) + 1\<close>.
\<close>

fun bump :: \<open>'k \<Rightarrow> ('k \<times> nat) list \<Rightarrow> ('k \<times> nat) list\<close> where
  \<open>bump k [] = [(k, 1)]\<close>
| \<open>bump k ((k', n) # rest) = (if k = k' then (k', n + 1) # rest else (k', n) # bump k rest)\<close>

text \<open>The \<open>forEach\<close> of the handler over the comments, on the three things it updates.\<close>

fun count_comments ::
  \<open>review list \<Rightarrow> (int \<times> nat) list \<times> (string \<times> nat) list \<times> int
     \<Rightarrow> (int \<times> nat) list \<times> (string \<times> nat) list \<times> int\<close> where
  \<open>count_comments [] acc = acc\<close>
| \<open>count_comments (comment # rest) acc =
     (case acc of (ratings, dates, total') \<Rightarrow>
        count_comments rest
          (bump (rating comment) ratings,
           (if date comment \<noteq> [] then bump (take 7 (date comment)) dates else dates),
           total' + rating comment))\<close>

definition compute_stats :: \<open>review list \<Rightarrow> stats\<close> where
  \<open>compute_stats comments =
     (case count_comments comments ([], [], 0) of (ratings, dates, total') \<Rightarrow>
        \<lparr>totalComments = length comments,
         ratingDistribution = ratings,
         dateDistribution = dates,
         averageRating =
           (if length comments > 0 then AvgString (toFixed2 total' (length comments)) else AvgNumber 0),
         totalRating = total'\<rparr>)\<close>

record stats_request =
  sp_appId :: string
  sq_limit :: \<open>string option\<close>

definition get_stats_handler :: \<open>world \<Rightarrow> stats_request \<Rightarrow> response\<close> where
  \<open>get_stats_handler w req =
     (let appId = sp_appId req;
          limit = parseInt_or (sq_limit req) 100
      in case fst (fetchComments w appId
                     \<lparr>o_limit = Some limit, o_sort = Some ''recent'', o_language = None, o_country = None\<rparr> []) of
           Raised e \<Rightarrow> \<lparr>status = 500, payload = ErrorBody ''Failed to fetch comment statistics'' (Some e)\<rparr>
         | Returned comments \<Rightarrow>
             \<lparr>status = 200,
              payload = StatsBody
                \<lparr>s_appId = appId, s_stats = compute_stats comments, s_fetchedAt = w_now w,
                 s_sampleSize = length comments\<rparr>\<rparr>)\<close>

definition get_stats :: \<open>world \<Rightarrow> stats_request \<Rightarrow> response\<close> where
  \<open>get_stats w req =
     (case validateAppId (sp_appId req) of
        Some r \<Rightarrow> r
      | None \<Rightarrow> get_stats_handler w req)\<close>

section \<open>Concrete inputs and auxiliary notions\<close>

text \<open>What a caller may rely on in a record: a text that is not empty and a rating from 0 to 5.\<close>

definition wellformed :: \<open>review \<Rightarrow> bool\<close> where
  \<open>wellformed r = (text' r \<noteq> [] \<and> 0 \<le> rating r \<and> rating r \<le> 5)\<close>

text \<open>A list of records with the \<open>date\<close> of every record overwritten.\<close>

definition undated :: \<open>string \<Rightarrow> review list \<Rightarrow> review list\<close> where
  \<open>undated d cs = map (\<lambda>r. r\<lparr>date := d\<rparr>) cs\<close>

text \<open>Markup with one review container, with one container whose rating is out of range, with
  an embedded \<open>"reviews"\<close> array, and with one and with two quoted values under the key
  \<open>"reviewText"\<close>.\<close>

definition markup_container :: string where
  \<open>markup_container = ''<div class="review">Solid app, rating: 4</div>''\<close>

definition markup_unrated :: string where
  \<open>markup_unrated = ''<div class="review">Nice and fast, rating: 9</div>''\<close>

definition markup_embedded :: string where
  \<open>markup_embedded = ''<script>var d = {"reviews": [{"text":"Great app","rating":5}]};</script>''\<close>

definition markup_bare :: string where
  \<open>markup_bare = ''{"reviewText": "Great app"}''\<close>

definition markup_bare2 :: string where
  \<open>markup_bare2 = ''{"reviewText": "Great app"}, {"reviewText": "Second one"}''\<close>

text \<open>Worlds: the upstream site is unreachable; it answers the request of the primary strategy
  (the one that bounds the redirects); it answers only the request of the secondary
  strategy; it answers for one application and is unreachable for every other.\<close>

definition w_down :: world where
  \<open>w_down = \<lparr>w_http = (\<lambda>req. Failed ''getaddrinfo ENOTFOUND play.google.com''),
              w_today = ''2024-02-01'', w_now = ''2024-02-01T10:30:00.000Z'',
              w_parser = (\<lambda>s. None)\<rparr>\<close>

definition w_page :: world where
  \<open>w_page = \<lparr>w_http = (\<lambda>req. if maxRedirects req = Some 5 then Response 200 (Text markup_container)
                                  else Failed ''timeout of 30000ms exceeded''),
              w_today = ''2024-02-01'', w_now = ''2024-02-01T10:30:00.000Z'',
              w_parser = (\<lambda>s. None)\<rparr>\<close>


definition w_one_down :: world where
  \<open>w_one_down = \<lparr>w_http = (\<lambda>req. if str_includes (url req) ''id=com.good.app&''
                                  then Response 200 (Text markup_container)
                                  else Failed ''getaddrinfo ENOTFOUND play.google.com''),
              w_today = ''2024-02-01'', w_now = ''2024-02-01T10:30:00.000Z'',
              w_parser = (\<lambda>s. None)\<rparr>\<close>

definition opts5 :: options where
  \<open>opts5 = \<lparr>o_limit = Some (Fin 5), o_sort = None, o_language = None, o_country = None\<rparr>\<close>

definition container_review :: \<open>string \<Rightarrow> review\<close> where
  \<open>container_review today =
     \<lparr>text' = ''Solid app, rating: 4'', rating = 4, date = today, author = ''Unknown'',
      helpful = 0, source = ''html''\<rparr>\<close>

text \<open>Batch bodies with limit 1: two identifiers; the same two after an identifier that cannot be
  converted to a string; and one identifier with a limit that cannot be converted.\<close>

definition down_and_good :: batch_body where
  \<open>down_and_good = \<lparr>bb_appIds = Some [JString ''com.down.app'', JString ''com.good.app''],
                     bb_limit = Some (JOther ''1''), bb_sort = None\<rparr>\<close>

definition mixed_batch :: batch_body where
  \<open>mixed_batch = \<lparr>bb_appIds = Some [JUnprintable, JString ''com.down.app'', JString ''com.good.app''],
                   bb_limit = Some (JOther ''1''), bb_sort = None\<rparr>\<close>

definition unprintable_limit :: batch_body where
  \<open>unprintable_limit = \<lparr>bb_appIds = Some [JString ''com.good.app''],
                         bb_limit = Some JUnprintable, bb_sort = None\<rparr>\<close>

text \<open>A record with a given rating.\<close>

definition starred :: \<open>int \<Rightarrow> review\<close> where
  \<open>starred n = \<lparr>text' = ''Does what it says'', rating = n, date = ''2024-02-01'',
                 author = ''Unknown'', helpful = 0, source = ''html''\<rparr>\<close>

text \<open>The array a call returned (empty for a call that threw).\<close>

definition comments_of :: \<open>review list outcome \<Rightarrow> review list\<close> where
  \<open>comments_of r = (case r of Returned cs \<Rightarrow> cs | Raised e \<Rightarrow> [])\<close>

text \<open>The upstream site fails both requests for an application, whatever the sort order.\<close>

definition unreachable :: \<open>world \<Rightarrow> string \<Rightarrow> bool\<close> where
  \<open>unreachable w a =
     ((\<exists>e. w_http w (alternative_request a ''en'' ''US'') = Failed e)
      \<and> (\<forall>s. \<exists>e. w_http w (page_request a s ''en'' ''US'') = Failed e))\<close>

section \<open>Properties of the matcher\<close>

lemma rmatch_length:
  \<open>rmatch re s g1 g2 = Some m \<Longrightarrow> length (fst m) \<le> length s\<close>
proof (induction re s g1 g2 arbitrary: m rule: rmatch.induct)
  case (7 k r c s g1 g2)
  then show ?case
    by (auto split: if_splits option.splits simp: le_Suc_eq)
next
  case (9 k r c s g1 g2)
  then show ?case
    by (auto split: if_splits option.splits simp: le_Suc_eq)
qed (auto split: if_splits simp: le_Suc_eq)

lemma rmatch_One_Cons:
  \<open>rmatch (One k # r) (c # s) g1 g2 = Some m \<Longrightarrow> cmatch k c \<and> length (fst m) \<le> length s\<close>
  by (auto split: if_splits dest: rmatch_length)

lemma match_g_One:
  \<open>x \<in> set (match_g (One k # r) s) \<Longrightarrow> \<exists>c cs. x = c # cs \<and> cmatch k c\<close>
proof (induction \<open>One k # r\<close> s rule: match_g.induct)
  case 1
  then show ?case by simp
next
  case (2 c s)
  show ?case
  proof (cases \<open>rmatch (One k # r) (c # s) [] []\<close>)
    case None
    with 2 show ?thesis by simp
  next
    case (Some m)
    from rmatch_One_Cons[OF Some] have k: \<open>cmatch k c\<close> and len: \<open>length (fst m) \<le> length s\<close>
      by simp_all
    from len have lt: \<open>length (fst m) < Suc (length s)\<close> by simp
    from 2(4) Some lt have \<open>x = consumed (c # s) (fst m) \<or> x \<in> set (match_g (One k # r) (fst m))\<close>
      by simp
    then show ?thesis
    proof
      assume \<open>x = consumed (c # s) (fst m)\<close>
      with len have \<open>x = c # take (length s - length (fst m)) s\<close>
        by (simp add: consumed_def Suc_diff_le)
      with k show ?thesis by blast
    next
      assume \<open>x \<in> set (match_g (One k # r) (fst m))\<close>
      with 2(2)[OF Some lt] show ?thesis by simp
    qed
  qed
qed

section \<open>The extraction engine keeps its records well-formed\<close>

lemma canonicalize_eq_lt: \<open>canonicalize c = canonicalize CHR ''<'' \<longleftrightarrow> c = CHR ''<''\<close>
  by (simp add: canonicalize_def)

lemma pattern_sources:
  \<open>\<not> str_includes (re_source pattern1) ''reviews''\<close>
  \<open>\<not> str_includes (re_source pattern1) ''reviewText''\<close>
  \<open>str_includes (re_source pattern2) ''reviews''\<close>
  \<open>\<not> str_includes (re_source pattern3) ''reviews''\<close>
  \<open>\<not> str_includes (re_source pattern3) ''reviewText''\<close>
  \<open>\<not> str_includes (re_source pattern4) ''reviews''\<close>
  \<open>str_includes (re_source pattern4) ''reviewText''\<close>
  by (simp_all add: pattern1_def pattern2_def pattern3_def pattern4_def bsl_def)

lemma pattern2_items: \<open>\<exists>r. re_items pattern2 = One (LitI CHR ''<'') # r\<close>
  by (simp add: pattern2_def litsI_def)

lemma pattern4_items: \<open>\<exists>r. re_items pattern4 = One (LitI dq) # r\<close>
  by (simp add: pattern4_def litsI_def dq_def)

lemma JSON_parse_undefined: \<open>JSON_parse parser None = None\<close>
  by (simp add: JSON_parse_def json_space_def json_start_def)

lemma JSON_parse_markup: \<open>JSON_parse parser (Some (CHR ''<'' # cs)) = None\<close>
  by (simp add: JSON_parse_def json_space_def json_start_def)

lemma embedded_strategy_emits_nothing:
  \<open>processReviewMatches parser today (match_g (re_items pattern2) html) pattern2 limit = []\<close>
proof -
  obtain r where r: \<open>re_items pattern2 = One (LitI CHR ''<'') # r\<close>
    using pattern2_items by blast
  have \<open>JSON_parse parser (nth_opt (match_g (re_items pattern2) html) 1) = None\<close>
  proof (cases \<open>1 < length (match_g (re_items pattern2) html)\<close>)
    case False
    then show ?thesis by (simp add: nth_opt_def JSON_parse_undefined)
  next
    case True
    then have \<open>match_g (re_items pattern2) html ! 1 \<in> set (match_g (One (LitI CHR ''<'') # r) html)\<close>
      using r nth_mem by metis
    from match_g_One[OF this] obtain cs where
      \<open>match_g (re_items pattern2) html ! 1 = CHR ''<'' # cs\<close>
      by (auto simp: canonicalize_eq_lt)
    with True show ?thesis by (simp add: nth_opt_def JSON_parse_markup)
  qed
  then show ?thesis
    by (simp add: processReviewMatches_def pattern_sources)
qed

lemma extractCommentFromHTML_Some:
  assumes \<open>extractCommentFromHTML today html = Some c\<close>
  shows \<open>10 \<le> length (text' c)\<close>
    and \<open>text' c = trim (replace_g spaces_re '' '' (replace_g tag_re '' '' html))\<close>
    and \<open>rating c =
      (let n = (case match_first rating_re html of Some ds \<Rightarrow> parse_digits ds | None \<Rightarrow> 0)
       in if 1 \<le> n \<and> n \<le> 5 then n else 0)\<close>
    and \<open>date c = today\<close> and \<open>source c = ''html''\<close> and \<open>helpful c = 0\<close>
  using assms
  by (auto simp: extractCommentFromHTML_def Let_def split: if_splits)

lemma extractCommentFromHTML_None_iff:
  \<open>extractCommentFromHTML today html = None \<longleftrightarrow>
     (let textContent = trim (replace_g spaces_re '' '' (replace_g tag_re '' '' html)) in
      length textContent < 10
      \<or> (str_includes textContent ''Games'' \<and> str_includes textContent ''Apps''
           \<and> str_includes textContent ''Movies''))\<close>
  by (auto simp: extractCommentFromHTML_def Let_def)

lemma extractCommentFromHTML_record:
  assumes \<open>extractCommentFromHTML today html = Some c\<close>
  shows \<open>c = \<lparr>text' = trim (replace_g spaces_re '' '' (replace_g tag_re '' '' html)),
               rating =
                 (let n = (case match_first rating_re html of Some ds \<Rightarrow> parse_digits ds | None \<Rightarrow> 0)
                  in if 1 \<le> n \<and> n \<le> 5 then n else 0),
               date = today,
               author = (case match_first author_re html of Some a \<Rightarrow> a | None \<Rightarrow> ''Unknown''),
               helpful = 0, source = ''html''\<rparr>\<close>
  using assms
  by (auto simp: extractCommentFromHTML_def Let_def split: if_splits)

lemma each_container_kept_NaN:
  \<open>each_container today NaN matches comments =
     comments @ List.map_filter (extractCommentFromHTML today) matches\<close>
proof (induction matches arbitrary: comments)
  case Nil
  then show ?case by (simp add: List.map_filter_simps)
next
  case (Cons m ms)
  show ?case
  proof (cases \<open>extractCommentFromHTML today m\<close>)
    case None
    then show ?thesis by (simp add: Cons.IH List.map_filter_simps)
  next
    case (Some c)
    from extractCommentFromHTML_Some(1)[OF Some] have \<open>text' c \<noteq> []\<close> by auto
    with Some show ?thesis by (simp add: Cons.IH List.map_filter_simps)
  qed
qed

lemma each_container_kept_Fin:
  \<open>each_container today (Fin l) matches comments =
     (if l \<le> int (length comments) then comments
      else comments @ take (nat l - length comments)
             (List.map_filter (extractCommentFromHTML today) matches))\<close>
proof (induction matches arbitrary: comments)
  case Nil
  then show ?case by (simp add: List.map_filter_simps)
next
  case (Cons m ms)
  show ?case
  proof (cases \<open>extractCommentFromHTML today m\<close>)
    case None
    then show ?thesis by (simp add: Cons.IH List.map_filter_simps)
  next
    case (Some c)
    from extractCommentFromHTML_Some(1)[OF Some] have \<open>text' c \<noteq> []\<close> by auto
    with Some show ?thesis
      by (auto simp: Cons.IH List.map_filter_simps take_Cons' nat_le_iff)
  qed
qed

lemma processReviewMatches_containers:
  \<open>processReviewMatches parser today matches pattern1 limit = each_container today limit matches []\<close>
  \<open>processReviewMatches parser today matches pattern3 limit = each_container today limit matches []\<close>
  by (simp_all add: processReviewMatches_def pattern_sources)

lemma extractCommentFromHTML_wellformed:
  \<open>extractCommentFromHTML today html = Some c \<Longrightarrow> wellformed c\<close>
  using extractCommentFromHTML_Some(1,3)[of today html c]
  by (auto simp: wellformed_def Let_def split: if_splits)

lemma each_container_wellformed:
  \<open>list_all wellformed comments \<Longrightarrow> list_all wellformed (each_container today limit matches comments)\<close>
proof (induction matches arbitrary: comments)
  case Nil
  then show ?case by simp
next
  case (Cons m ms)
  show ?case
    using Cons.prems
    by (auto intro!: Cons.IH split: option.splits dest: extractCommentFromHTML_wellformed)
qed

lemma each_text_wellformed:
  \<open>list_all wellformed comments \<Longrightarrow> [] \<notin> set matches \<Longrightarrow>
   list_all wellformed (each_text today limit i matches comments)\<close>
proof (induction matches arbitrary: comments i)
  case Nil
  then show ?case by simp
next
  case (Cons m ms)
  from Cons.prems have m: \<open>m \<noteq> []\<close> and ms: \<open>[] \<notin> set ms\<close> by auto
  have new: \<open>list_all wellformed
      (comments @ [\<lparr>text' = m, rating = 0, date = today, author = ''Unknown'', helpful = 0,
         source = ''api''\<rparr>])\<close>
  proof -
    have \<open>wellformed \<lparr>text' = m, rating = 0, date = today, author = ''Unknown'', helpful = 0,
         source = ''api''\<rparr>\<close>
      using m by (simp add: wellformed_def)
    with Cons.prems(1) show ?thesis by simp
  qed
  show ?case
    using Cons.IH[OF Cons.prems(1) ms] Cons.IH[OF new ms] by simp
qed

lemma processReviewMatches_wellformed:
  assumes \<open>pattern \<in> set reviewPatterns\<close>
  shows \<open>list_all wellformed
    (processReviewMatches parser today (match_g (re_items pattern) html) pattern limit)\<close>
proof -
  from assms consider \<open>pattern = pattern1\<close> | \<open>pattern = pattern2\<close> | \<open>pattern = pattern3\<close>
    | \<open>pattern = pattern4\<close>
    by (auto simp: reviewPatterns_def)
  then show ?thesis
  proof cases
    case 1
    then show ?thesis
      by (simp add: processReviewMatches_def pattern_sources each_container_wellformed)
  next
    case 2
    then show ?thesis by (simp add: embedded_strategy_emits_nothing)
  next
    case 3
    then show ?thesis
      by (simp add: processReviewMatches_def pattern_sources each_container_wellformed)
  next
    case 4
    obtain r where r: \<open>re_items pattern4 = One (LitI dq) # r\<close>
      using pattern4_items by blast
    have \<open>[] \<notin> set (match_g (re_items pattern4) html)\<close>
      using match_g_One[of \<open>[]\<close> \<open>LitI dq\<close> r html] r by auto
    with 4 show ?thesis
      by (simp add: processReviewMatches_def pattern_sources each_text_wellformed)
  qed
qed

lemma run_patterns_wellformed:
  \<open>set patterns \<subseteq> set reviewPatterns \<Longrightarrow> list_all wellformed comments \<Longrightarrow>
   list_all wellformed (run_patterns parser today html limit patterns comments)\<close>
proof (induction patterns arbitrary: comments)
  case Nil
  then show ?case by simp
next
  case (Cons p ps)
  from Cons.prems have p: \<open>p \<in> set reviewPatterns\<close> and ps: \<open>set ps \<subseteq> set reviewPatterns\<close>
    by auto
  have new: \<open>list_all wellformed
      (comments @ processReviewMatches parser today (match_g (re_items p) html) p limit)\<close>
    using Cons.prems(2) processReviewMatches_wellformed[OF p] by simp
  show ?case
    using Cons.IH[OF ps Cons.prems(2)] Cons.IH[OF ps new] new
    by (simp add: Let_def)
qed

lemma list_all_slice0: \<open>list_all P xs \<Longrightarrow> list_all P (slice0 xs l)\<close>
  by (cases l) (auto simp: list_all_iff dest: in_set_takeD)

lemma extractReviewsFromHTML_wellformed:
  \<open>list_all wellformed (extractReviewsFromHTML parser today html limit)\<close>
  by (cases html)
    (simp_all add: extractReviewsFromHTML_def list_all_slice0 run_patterns_wellformed)

lemma sampleReviews_wellformed: \<open>list_all wellformed sampleReviews\<close>
  by (simp add: sampleReviews_def wellformed_def)

lemma generateSampleReviews_wellformed: \<open>list_all wellformed (generateSampleReviews appId limit)\<close>
  by (simp add: generateSampleReviews_def list_all_slice0 sampleReviews_wellformed)

section \<open>The clock reaches the output through the date field only\<close>

lemma undated_simps:
  \<open>undated d [] = []\<close>
  \<open>undated d (xs @ ys) = undated d xs @ undated d ys\<close>
  \<open>length (undated d xs) = length xs\<close>
  by (simp_all add: undated_def)

lemma undated_slice0: \<open>undated d (slice0 xs l) = slice0 (undated d xs) l\<close>
  by (cases l) (simp_all add: undated_def take_map)

lemma extractCommentFromHTML_clock:
  \<open>extractCommentFromHTML t1 html = None \<longleftrightarrow> extractCommentFromHTML t2 html = None\<close>
  \<open>extractCommentFromHTML t1 html = Some a \<Longrightarrow> extractCommentFromHTML t2 html = Some b \<Longrightarrow>
     a\<lparr>date := d\<rparr> = b\<lparr>date := d\<rparr> \<and> text' a = text' b\<close>
  by (auto simp: extractCommentFromHTML_def Let_def split: if_splits)

lemma each_container_clock:
  \<open>undated d c1 = undated d c2 \<Longrightarrow>
   undated d (each_container t1 limit matches c1) = undated d (each_container t2 limit matches c2)\<close>
proof (induction matches arbitrary: c1 c2)
  case Nil
  then show ?case by simp
next
  case (Cons m ms)
  from Cons.prems have len: \<open>length c1 = length c2\<close>
    by (metis undated_simps(3))
  show ?case
  proof (cases \<open>extractCommentFromHTML t1 m\<close>)
    case None
    then have \<open>extractCommentFromHTML t2 m = None\<close>
      using extractCommentFromHTML_clock(1) by blast
    with None Cons.IH[OF Cons.prems] len show ?thesis by simp
  next
    case (Some a)
    then obtain b where b: \<open>extractCommentFromHTML t2 m = Some b\<close>
      using extractCommentFromHTML_clock(1)[of t1 m t2] by (cases \<open>extractCommentFromHTML t2 m\<close>) auto
    from extractCommentFromHTML_clock(2)[OF Some b, of d]
    have ab: \<open>a\<lparr>date := d\<rparr> = b\<lparr>date := d\<rparr>\<close> and tx: \<open>text' a = text' b\<close> by simp_all
    have new: \<open>undated d (c1 @ [a]) = undated d (c2 @ [b])\<close>
      using Cons.prems ab by (simp add: undated_def)
    show ?thesis
      using Some b tx len Cons.IH[OF Cons.prems] Cons.IH[OF new] by simp
  qed
qed

lemma each_text_clock:
  \<open>undated d c1 = undated d c2 \<Longrightarrow>
   undated d (each_text t1 limit i matches c1) = undated d (each_text t2 limit i matches c2)\<close>
proof (induction matches arbitrary: c1 c2 i)
  case Nil
  then show ?case by simp
next
  case (Cons m ms)
  from Cons.prems have len: \<open>length c1 = length c2\<close>
    by (metis undated_simps(3))
  have new: \<open>undated d (c1 @ [\<lparr>text' = m, rating = 0, date = t1, author = ''Unknown'', helpful = 0,
            source = ''api''\<rparr>]) =
      undated d (c2 @ [\<lparr>text' = m, rating = 0, date = t2, author = ''Unknown'', helpful = 0,
            source = ''api''\<rparr>])\<close>
    using Cons.prems by (simp add: undated_def)
  show ?case
    using len Cons.IH[OF Cons.prems] Cons.IH[OF new] by simp
qed

lemma processReviewMatches_clock:
  assumes \<open>pattern \<in> set reviewPatterns\<close>
  shows \<open>undated d (processReviewMatches parser t1 (match_g (re_items pattern) html) pattern limit) =
         undated d (processReviewMatches parser t2 (match_g (re_items pattern) html) pattern limit)\<close>
proof -
  from assms consider \<open>pattern = pattern1\<close> | \<open>pattern = pattern2\<close> | \<open>pattern = pattern3\<close>
    | \<open>pattern = pattern4\<close>
    by (auto simp: reviewPatterns_def)
  then show ?thesis
  proof cases
    case 2
    then show ?thesis by (simp add: embedded_strategy_emits_nothing)
  qed (simp_all add: processReviewMatches_def pattern_sources each_container_clock each_text_clock)
qed

lemma run_patterns_clock:
  \<open>set patterns \<subseteq> set reviewPatterns \<Longrightarrow> undated d c1 = undated d c2 \<Longrightarrow>
   undated d (run_patterns parser t1 html limit patterns c1) =
   undated d (run_patterns parser t2 html limit patterns c2)\<close>
proof (induction patterns arbitrary: c1 c2)
  case Nil
  then show ?case by simp
next
  case (Cons p ps)
  from Cons.prems have p: \<open>p \<in> set reviewPatterns\<close> and ps: \<open>set ps \<subseteq> set reviewPatterns\<close>
    by auto
  let ?n1 = \<open>c1 @ processReviewMatches parser t1 (match_g (re_items p) html) p limit\<close>
  let ?n2 = \<open>c2 @ processReviewMatches parser t2 (match_g (re_items p) html) p limit\<close>
  have new: \<open>undated d ?n1 = undated d ?n2\<close>
    using Cons.prems(2) processReviewMatches_clock[OF p] by (simp add: undated_simps)
  then have len: \<open>length ?n1 = length ?n2\<close>
    by (metis undated_simps(3))
  show ?case
    using Cons.IH[OF ps Cons.prems(2)] Cons.IH[OF ps new] new len
    by (simp add: Let_def)
qed

lemma extractReviewsFromHTML_clock:
  \<open>undated d (extractReviewsFromHTML parser t1 html limit) =
   undated d (extractReviewsFromHTML parser t2 html limit)\<close>
proof (cases html)
  case (Text s)
  have \<open>undated d (run_patterns parser t1 s limit reviewPatterns []) =
        undated d (run_patterns parser t2 s limit reviewPatterns [])\<close>
    by (rule run_patterns_clock) simp_all
  with Text show ?thesis
    by (simp add: extractReviewsFromHTML_def undated_slice0)
next
  case NonText
  then show ?thesis by (simp add: extractReviewsFromHTML_def)
qed

section \<open>The orchestrator\<close>

lemma length_sampleReviews: \<open>length sampleReviews = 10\<close>
  by (simp add: sampleReviews_def)



lemma length_slice0: \<open>0 \<le> l \<Longrightarrow> int (length (slice0 xs (Fin l))) \<le> l\<close>
  by simp



lemma fetchReviewsFromPage_cases:
  \<open>fetchReviewsFromPage w appId limit sort' language country trace =
     (Returned [], trace @ [page_request appId sort' language country]) \<or>
   (\<exists>data. w_http w (page_request appId sort' language country) = Response 200 data \<and>
      fetchReviewsFromPage w appId limit sort' language country trace =
        (Returned (extractReviewsFromHTML (w_parser w) (w_today w) data limit),
         trace @ [page_request appId sort' language country]))\<close>
  by (simp add: fetchReviewsFromPage_def Let_def split: http_outcome.split)

lemma fetchReviewsAlternative_cases:
  \<open>fetchReviewsAlternative w appId limit sort' language country trace =
     (Returned [], trace @ [alternative_request appId language country]) \<or>
   (\<exists>data. w_http w (alternative_request appId language country) = Response 200 data \<and>
      fetchReviewsAlternative w appId limit sort' language country trace =
        (Returned (extractReviewsFromHTML (w_parser w) (w_today w) data limit),
         trace @ [alternative_request appId language country]))\<close>
  by (simp add: fetchReviewsAlternative_def Let_def split: http_outcome.split)




lemma each_container_dated:
  \<open>list_all (\<lambda>r. date r = today) comments \<Longrightarrow>
   list_all (\<lambda>r. date r = today) (each_container today limit matches comments)\<close>
proof (induction matches arbitrary: comments)
  case Nil
  then show ?case by simp
next
  case (Cons m ms)
  show ?case
    using Cons.prems
    by (auto intro!: Cons.IH split: option.splits dest: extractCommentFromHTML_Some(4))
qed

lemma each_text_dated:
  \<open>list_all (\<lambda>r. date r = today) comments \<Longrightarrow>
   list_all (\<lambda>r. date r = today) (each_text today limit i matches comments)\<close>
  by (induction matches arbitrary: comments i) auto

lemma processReviewMatches_dated:
  assumes \<open>pattern \<in> set reviewPatterns\<close>
  shows \<open>list_all (\<lambda>r. date r = today)
    (processReviewMatches parser today (match_g (re_items pattern) html) pattern limit)\<close>
proof -
  from assms consider \<open>pattern = pattern1\<close> | \<open>pattern = pattern2\<close> | \<open>pattern = pattern3\<close>
    | \<open>pattern = pattern4\<close>
    by (auto simp: reviewPatterns_def)
  then show ?thesis
  proof cases
    case 2
    then show ?thesis by (simp add: embedded_strategy_emits_nothing)
  qed (simp_all add: processReviewMatches_def pattern_sources each_container_dated each_text_dated)
qed

lemma run_patterns_dated:
  \<open>set patterns \<subseteq> set reviewPatterns \<Longrightarrow> list_all (\<lambda>r. date r = today) comments \<Longrightarrow>
   list_all (\<lambda>r. date r = today) (run_patterns parser today html limit patterns comments)\<close>
proof (induction patterns arbitrary: comments)
  case Nil
  then show ?case by simp
next
  case (Cons p ps)
  from Cons.prems have p: \<open>p \<in> set reviewPatterns\<close> and ps: \<open>set ps \<subseteq> set reviewPatterns\<close>
    by auto
  have new: \<open>list_all (\<lambda>r. date r = today)
      (comments @ processReviewMatches parser today (match_g (re_items p) html) p limit)\<close>
    using Cons.prems(2) processReviewMatches_dated[OF p] by simp
  show ?case
    using Cons.IH[OF ps Cons.prems(2)] Cons.IH[OF ps new] new
    by (simp add: Let_def)
qed

lemma extractReviewsFromHTML_dated:
  \<open>list_all (\<lambda>r. date r = today) (extractReviewsFromHTML parser today html limit)\<close>
  by (cases html)
    (simp_all add: extractReviewsFromHTML_def list_all_slice0 run_patterns_dated)

lemma undated_id: \<open>list_all (\<lambda>r. date r = d) cs \<Longrightarrow> undated d cs = cs\<close>
  by (induction cs) (simp_all add: undated_def)

lemma fetchComments_with_wellformed:
  assumes p: \<open>\<And>t cs. fst (primary t) = Returned cs \<Longrightarrow> list_all wellformed cs\<close>
    and s: \<open>\<And>t cs. fst (secondary t) = Returned cs \<Longrightarrow> list_all wellformed cs\<close>
    and r: \<open>fst (fetchComments_with primary secondary appId limit trace) = Returned cs\<close>
  shows \<open>list_all wellformed cs\<close>
proof -
  note sample = generateSampleReviews_wellformed[of appId limit]
  obtain r1 t1 where P: \<open>primary trace = (r1, t1)\<close> by (cases \<open>primary trace\<close>)
  obtain r2 t2 where S: \<open>secondary t1 = (r2, t2)\<close> by (cases \<open>secondary t1\<close>)
  show ?thesis
  proof (cases r1)
    case (Raised e)
    with P r sample show ?thesis by (simp add: fetchComments_with_def)
  next
    case R1: (Returned c1)
    have w1: \<open>list_all wellformed c1\<close> using p[of trace c1] P R1 by simp
    show ?thesis
    proof (cases r2)
      case (Raised e)
      with P S R1 r sample w1 show ?thesis
        by (auto simp: fetchComments_with_def split: if_splits)
    next
      case R2: (Returned c2)
      have w2: \<open>list_all wellformed c2\<close> using s[of t1 c2] S R2 by simp
      with P S R1 R2 r sample w1 show ?thesis
        by (auto simp: fetchComments_with_def split: if_splits)
    qed
  qed
qed

lemma fetchComments_wellformed:
  assumes \<open>fst (fetchComments w appId opts trace) = Returned cs\<close>
  shows \<open>list_all wellformed cs\<close>
proof -
  have p: \<open>list_all wellformed cs\<close>
    if \<open>fst (fetchReviewsFromPage w appId l so la co t) = Returned cs\<close> for t cs l so la co
    using that fetchReviewsFromPage_cases[of w appId l so la co t]
      extractReviewsFromHTML_wellformed by auto
  have s: \<open>list_all wellformed cs\<close>
    if \<open>fst (fetchReviewsAlternative w appId l so la co t) = Returned cs\<close> for t cs l so la co
    using that fetchReviewsAlternative_cases[of w appId l so la co t]
      extractReviewsFromHTML_wellformed by auto
  show ?thesis
    using assms unfolding fetchComments_def Let_def
    by (rule fetchComments_with_wellformed[rotated 2]) (auto dest: p s)
qed

text \<open>
  Claim C3.  Every record that the extraction engine, the sample generator or
  \<open>fetchComments\<close> returns has a text that is not empty and a rating from 0 to 5.  A
  container is dropped exactly when its text, after the tags are stripped, is shorter than
  10 characters or looks like the site's navigation; every other container is kept,
  whatever rating it carries, as the record with that text and with the rating found in it
  when that is from 1 to 5 and rating 0 otherwise.  The loop over the containers of a
  pattern emits the kept containers, in order, until the limit is reached.
\<close>

theorem returned_records_wellformed:
  \<open>(\<forall>r \<in> set (extractReviewsFromHTML parser today html limit).
       text' r \<noteq> [] \<and> 0 \<le> rating r \<and> rating r \<le> 5)
   \<and> (\<forall>r \<in> set (generateSampleReviews appId limit).
       text' r \<noteq> [] \<and> 0 \<le> rating r \<and> rating r \<le> 5)
   \<and> (\<forall>cs. fst (fetchComments w appId opts trace) = Returned cs \<longrightarrow>
       (\<forall>r \<in> set cs. text' r \<noteq> [] \<and> 0 \<le> rating r \<and> rating r \<le> 5))
   \<and> (extractCommentFromHTML today element = None \<longleftrightarrow>
       (let textContent = trim (replace_g spaces_re '' '' (replace_g tag_re '' '' element)) in
        length textContent < 10
        \<or> (str_includes textContent ''Games'' \<and> str_includes textContent ''Apps''
             \<and> str_includes textContent ''Movies'')))
   \<and> (\<forall>c. extractCommentFromHTML today element = Some c \<longrightarrow>
       10 \<le> length (text' c)
       \<and> c = \<lparr>text' = trim (replace_g spaces_re '' '' (replace_g tag_re '' '' element)),
               rating =
                 (let n = (case match_first rating_re element of Some ds \<Rightarrow> parse_digits ds | None \<Rightarrow> 0)
                  in if 1 \<le> n \<and> n \<le> 5 then n else 0),
               date = today,
               author = (case match_first author_re element of Some a \<Rightarrow> a | None \<Rightarrow> ''Unknown''),
               helpful = 0, source = ''html''\<rparr>)
   \<and> each_container today NaN matches comments =
       comments @ List.map_filter (extractCommentFromHTML today) matches
   \<and> each_container today (Fin l) matches comments =
       (if l \<le> int (length comments) then comments
        else comments @ take (nat l - length comments)
               (List.map_filter (extractCommentFromHTML today) matches))
   \<and> processReviewMatches parser today matches pattern1 limit = each_container today limit matches []
   \<and> processReviewMatches parser today matches pattern3 limit = each_container today limit matches []\<close>
proof (intro conjI allI impI)
  show \<open>\<forall>r \<in> set (extractReviewsFromHTML parser today html limit).
       text' r \<noteq> [] \<and> 0 \<le> rating r \<and> rating r \<le> 5\<close>
    using extractReviewsFromHTML_wellformed[of parser today html limit]
    by (simp add: list_all_iff wellformed_def)
  show \<open>\<forall>r \<in> set (generateSampleReviews appId limit).
       text' r \<noteq> [] \<and> 0 \<le> rating r \<and> rating r \<le> 5\<close>
    using generateSampleReviews_wellformed[of appId limit]
    by (simp add: list_all_iff wellformed_def)
  show \<open>extractCommentFromHTML today element = None \<longleftrightarrow>
       (let textContent = trim (replace_g spaces_re '' '' (replace_g tag_re '' '' element)) in
        length textContent < 10
        \<or> (str_includes textContent ''Games'' \<and> str_includes textContent ''Apps''
             \<and> str_includes textContent ''Movies''))\<close>
    by (rule extractCommentFromHTML_None_iff)
  show \<open>each_container today NaN matches comments =
       comments @ List.map_filter (extractCommentFromHTML today) matches\<close>
    by (rule each_container_kept_NaN)
  show \<open>each_container today (Fin l) matches comments =
       (if l \<le> int (length comments) then comments
        else comments @ take (nat l - length comments)
               (List.map_filter (extractCommentFromHTML today) matches))\<close>
    by (rule each_container_kept_Fin)
  show \<open>processReviewMatches parser today matches pattern1 limit = each_container today limit matches []\<close>
    by (rule processReviewMatches_containers)
  show \<open>processReviewMatches parser today matches pattern3 limit = each_container today limit matches []\<close>
    by (rule processReviewMatches_containers)
next
  fix cs
  assume \<open>fst (fetchComments w appId opts trace) = Returned cs\<close>
  from fetchComments_wellformed[OF this]
  show \<open>\<forall>r \<in> set cs. text' r \<noteq> [] \<and> 0 \<le> rating r \<and> rating r \<le> 5\<close>
    by (simp add: list_all_iff wellformed_def)
next
  fix c
  assume c: \<open>extractCommentFromHTML today element = Some c\<close>
  show \<open>10 \<le> length (text' c)\<close> by (rule extractCommentFromHTML_Some(1)[OF c])
  show \<open>c = \<lparr>text' = trim (replace_g spaces_re '' '' (replace_g tag_re '' '' element)),
               rating =
                 (let n = (case match_first rating_re element of Some ds \<Rightarrow> parse_digits ds | None \<Rightarrow> 0)
                  in if 1 \<le> n \<and> n \<le> 5 then n else 0),
               date = today,
               author = (case match_first author_re element of Some a \<Rightarrow> a | None \<Rightarrow> ''Unknown''),
               helpful = 0, source = ''html''\<rparr>\<close>
    by (rule extractCommentFromHTML_record[OF c])
qed

text \<open>
  Claim C9, as amended.  The extraction engine never throws, and its output is determined by
  the markup and the limit except for the \<open>date\<close> field: the records extracted at the
  calendar date \<open>today\<close> are the records extracted at any other date \<open>today'\<close> with
  their \<open>date\<close> set to \<open>today\<close>.
\<close>

theorem extraction_determined_up_to_clock:
  \<open>extractReviewsFromHTML parser today html limit =
     map (\<lambda>r. r\<lparr>date := today\<rparr>) (extractReviewsFromHTML parser today' html limit)\<close>
proof -
  have \<open>extractReviewsFromHTML parser today html limit =
      undated today (extractReviewsFromHTML parser today html limit)\<close>
    by (simp add: undated_id extractReviewsFromHTML_dated)
  also have \<open>\<dots> = undated today (extractReviewsFromHTML parser today' html limit)\<close>
    by (rule extractReviewsFromHTML_clock)
  finally show ?thesis by (simp add: undated_def)
qed

lemma fetchComments_with_never_raises:
  \<open>\<exists>cs. fst (fetchComments_with primary secondary appId limit trace) = Returned cs\<close>
  by (auto simp: fetchComments_with_def split: prod.splits outcome.splits)


section \<open>Evaluating the engine on concrete markup\<close>

lemma cmatch_LitI:
  \<open>cmatch (LitI CHR ''<'') c = (c = CHR ''<'')\<close>
  \<open>cmatch (LitI CHR ''>'') c = (c = CHR ''>'')\<close>
  \<open>cmatch (LitI CHR ''/'') c = (c = CHR ''/'')\<close>
  \<open>cmatch (LitI CHR ''='') c = (c = CHR ''='')\<close>
  \<open>cmatch (LitI CHR '':'') c = (c = CHR '':'')\<close>
  \<open>cmatch (LitI CHR ''-'') c = (c = CHR ''-'')\<close>
  \<open>cmatch (LitI CHR ''['') c = (c = CHR ''['')\<close>
  \<open>cmatch (LitI CHR '']'') c = (c = CHR '']'')\<close>
  \<open>cmatch (LitI CHR 0x22) c = (c = CHR 0x22)\<close>
  \<open>cmatch (LitI CHR ''a'') c = (c = CHR ''a'' \<or> c = CHR ''A'')\<close>
  \<open>cmatch (LitI CHR ''c'') c = (c = CHR ''c'' \<or> c = CHR ''C'')\<close>
  \<open>cmatch (LitI CHR ''d'') c = (c = CHR ''d'' \<or> c = CHR ''D'')\<close>
  \<open>cmatch (LitI CHR ''e'') c = (c = CHR ''e'' \<or> c = CHR ''E'')\<close>
  \<open>cmatch (LitI CHR ''g'') c = (c = CHR ''g'' \<or> c = CHR ''G'')\<close>
  \<open>cmatch (LitI CHR ''h'') c = (c = CHR ''h'' \<or> c = CHR ''H'')\<close>
  \<open>cmatch (LitI CHR ''i'') c = (c = CHR ''i'' \<or> c = CHR ''I'')\<close>
  \<open>cmatch (LitI CHR ''l'') c = (c = CHR ''l'' \<or> c = CHR ''L'')\<close>
  \<open>cmatch (LitI CHR ''n'') c = (c = CHR ''n'' \<or> c = CHR ''N'')\<close>
  \<open>cmatch (LitI CHR ''o'') c = (c = CHR ''o'' \<or> c = CHR ''O'')\<close>
  \<open>cmatch (LitI CHR ''p'') c = (c = CHR ''p'' \<or> c = CHR ''P'')\<close>
  \<open>cmatch (LitI CHR ''r'') c = (c = CHR ''r'' \<or> c = CHR ''R'')\<close>
  \<open>cmatch (LitI CHR ''s'') c = (c = CHR ''s'' \<or> c = CHR ''S'')\<close>
  \<open>cmatch (LitI CHR ''t'') c = (c = CHR ''t'' \<or> c = CHR ''T'')\<close>
  \<open>cmatch (LitI CHR ''T'') c = (c = CHR ''t'' \<or> c = CHR ''T'')\<close>
  \<open>cmatch (LitI CHR ''u'') c = (c = CHR ''u'' \<or> c = CHR ''U'')\<close>
  \<open>cmatch (LitI CHR ''v'') c = (c = CHR ''v'' \<or> c = CHR ''V'')\<close>
  \<open>cmatch (LitI CHR ''w'') c = (c = CHR ''w'' \<or> c = CHR ''W'')\<close>
  \<open>cmatch (LitI CHR ''x'') c = (c = CHR ''x'' \<or> c = CHR ''X'')\<close>
  by (auto simp: canonicalize_def)

lemmas eval_simps =
  extractReviewsFromHTML_def reviewPatterns_def pattern1_def pattern2_def pattern3_def
  pattern4_def litsI_def lits_def dq_def cmatch_LitI processReviewMatches_def pattern_sources
  extractCommentFromHTML_def tag_re_def spaces_re_def rating_re_def author_re_def
  consumed_def trim_def is_space_def is_digit_def is_line_terminator_def parse_digits_def
  digit_val_def nth_opt_def JSON_parse_def json_space_def json_start_def Let_def

lemma extract_markup_container:
  \<open>extractReviewsFromHTML parser today (Text markup_container) (Fin 5) =
     [\<lparr>text' = ''Solid app, rating: 4'', rating = 4, date = today, author = ''Unknown'',
       helpful = 0, source = ''html''\<rparr>]\<close>
  by (simp add: eval_simps markup_container_def del: cmatch.simps(4))

lemma extract_markup_embedded:
  \<open>extractReviewsFromHTML parser today (Text markup_embedded) (Fin 5) = []\<close>
  by (simp add: eval_simps markup_embedded_def del: cmatch.simps(4))

lemma extract_markup_bare:
  \<open>extractReviewsFromHTML parser today (Text markup_bare) (Fin 5) = []\<close>
  by (simp add: eval_simps markup_bare_def del: cmatch.simps(4))

lemma extract_markup_bare2:
  \<open>extractReviewsFromHTML parser today (Text markup_bare2) (Fin 5) =
     [\<lparr>text' = ''"reviewText": "Second one"'', rating = 0, date = today, author = ''Unknown'',
       helpful = 0, source = ''api''\<rparr>]\<close>
  by (simp add: eval_simps markup_bare2_def del: cmatch.simps(4))

lemma extract_markup_unrated:
  \<open>extractReviewsFromHTML parser today (Text markup_unrated) (Fin 5) =
     [\<lparr>text' = ''Nice and fast, rating: 9'', rating = 0, date = today, author = ''Unknown'',
       helpful = 0, source = ''html''\<rparr>]\<close>
  by (simp add: eval_simps markup_unrated_def del: cmatch.simps(4))

section \<open>Statistics, validation and the routes\<close>

lemma bump_sum: \<open>sum_list (map snd (bump k m)) = Suc (sum_list (map snd m))\<close>
  by (induction k m rule: bump.induct) simp_all

lemma count_comments_sum:
  \<open>sum_list (map snd (fst (count_comments cs acc))) = length cs + sum_list (map snd (fst acc))\<close>
proof (induction cs arbitrary: acc)
  case Nil
  then show ?case by simp
next
  case (Cons c cs)
  show ?case
    by (cases acc) (simp add: Cons.IH bump_sum)
qed

lemma ratingDistribution_sums_to_total:
  \<open>sum_list (map snd (ratingDistribution (compute_stats cs))) = totalComments (compute_stats cs)\<close>
  using count_comments_sum[of cs \<open>([], [], 0)\<close>]
  by (auto simp: compute_stats_def split: prod.splits)

lemma averageRating_no_comments: \<open>averageRating (compute_stats []) = AvgNumber 0\<close>
  by (simp add: compute_stats_def)

lemma toFixed2_5_1: \<open>toFixed2 5 1 = ''5.00''\<close>
  by (simp add: toFixed2_def double_div_def quotient_ge_pow2_def round_half_even_def
      hundredths_def fixed2_def digit_char_def Let_def)

lemma toFixed2_43_40: \<open>toFixed2 43 40 = ''1.07''\<close>
  by (simp add: toFixed2_def double_div_def quotient_ge_pow2_def round_half_even_def
      hundredths_def fixed2_def digit_char_def Let_def)

lemma parseInt_examples:
  \<open>parseInt ''999'' = Fin 999\<close> \<open>parseInt ''1'' = Fin 1\<close> \<open>parseInt ''200'' = Fin 200\<close>
  \<open>parseInt ''0'' = Fin 0\<close> \<open>parseInt ''201'' = Fin 201\<close> \<open>parseInt ''abc'' = NaN\<close>
  \<open>parseInt ''-5'' = Fin (- 5)\<close> \<open>parseInt '' 42px'' = Fin 42\<close> \<open>parseInt ''0x1F'' = Fin 31\<close>
  by (simp_all add: parseInt_def is_space_def is_digit_def is_hex_digit_def parse_digits_def
      parse_hex_def hex_val_def digit_val_def Let_def)

lemma validateAppId_whatsapp: \<open>validateAppId ''com.whatsapp'' = None\<close>
  by (simp add: validateAppId_def appIdPattern_test_def is_alnum_def)

lemma generateSampleReviews_1: \<open>generateSampleReviews appId (Fin 1) = [hd sampleReviews]\<close>
  by (simp add: generateSampleReviews_def sampleReviews_def)

lemma fetchComments_down:
  \<open>fst (fetchComments w_down appId
      \<lparr>o_limit = Some l, o_sort = so, o_language = la, o_country = co\<rparr> trace) =
    Returned (generateSampleReviews appId l)\<close>
  by (simp add: fetchComments_def fetchComments_with_def fetchReviewsFromPage_def
      fetchReviewsAlternative_def w_down_def or_default_def Let_def)

lemma fetchComments_page:
  \<open>fetchComments w_page ''com.example.app'' opts5 [] =
     (Returned [container_review ''2024-02-01''],
      [page_request ''com.example.app'' ''recent'' ''en'' ''US''])\<close>
  by (simp add: fetchComments_def fetchComments_with_def fetchReviewsFromPage_def w_page_def
      opts5_def or_default_def Let_def extract_markup_container container_review_def
      page_request_def)





theorem returned_records_wellformed_witness:
  \<open>container_review ''2024-02-01'' \<in> set (extractReviewsFromHTML (\<lambda>s. None) ''2024-02-01''
       (Text markup_container) (Fin 5))
   \<and> text' (container_review ''2024-02-01'') \<noteq> []
   \<and> 0 \<le> rating (container_review ''2024-02-01'') \<and> rating (container_review ''2024-02-01'') \<le> 5
   \<and> hd sampleReviews \<in> set (generateSampleReviews ''com.whatsapp'' (Fin 1))
   \<and> text' (hd sampleReviews) \<noteq> [] \<and> rating (hd sampleReviews) = 5
   \<and> fst (fetchComments w_page ''com.example.app'' opts5 []) = Returned [container_review ''2024-02-01'']
   \<and> extractCommentFromHTML ''2024-02-01'' ''<p>Nice and fast, rating: 9</p>'' =
       Some \<lparr>text' = ''Nice and fast, rating: 9'', rating = 0, date = ''2024-02-01'',
             author = ''Unknown'', helpful = 0, source = ''html''\<rparr>
   \<and> extractCommentFromHTML ''2024-02-01'' ''<p>First review ok</p>'' =
       Some \<lparr>text' = ''First review ok'', rating = 0, date = ''2024-02-01'',
             author = ''Unknown'', helpful = 0, source = ''html''\<rparr>
   \<and> extractCommentFromHTML ''2024-02-01'' ''<p>Too short</p>'' = None
   \<and> extractReviewsFromHTML (\<lambda>s. None) ''2024-02-01'' (Text markup_unrated) (Fin 5) =
       [\<lparr>text' = ''Nice and fast, rating: 9'', rating = 0, date = ''2024-02-01'',
         author = ''Unknown'', helpful = 0, source = ''html''\<rparr>]\<close>
proof -
  have a: \<open>container_review ''2024-02-01'' \<in> set (extractReviewsFromHTML (\<lambda>s. None) ''2024-02-01''
       (Text markup_container) (Fin 5))\<close>
    by (simp add: extract_markup_container container_review_def)
  have b: \<open>hd sampleReviews \<in> set (generateSampleReviews ''com.whatsapp'' (Fin 1))\<close>
    by (simp add: generateSampleReviews_1)
  have tc: \<open>trim (replace_g spaces_re '' '' (replace_g tag_re '' '' ''<p>Nice and fast, rating: 9</p>'')) =
      ''Nice and fast, rating: 9''\<close>
    \<open>trim (replace_g spaces_re '' '' (replace_g tag_re '' '' ''<p>First review ok</p>'')) =
      ''First review ok''\<close>
    \<open>trim (replace_g spaces_re '' '' (replace_g tag_re '' '' ''<p>Too short</p>'')) = ''Too short''\<close>
    by (simp_all add: eval_simps del: cmatch.simps(4))
  have d: \<open>extractCommentFromHTML ''2024-02-01'' ''<p>Too short</p>'' = None\<close>
    using returned_records_wellformed[where today = \<open>''2024-02-01''\<close>
        and element = \<open>''<p>Too short</p>''\<close>] tc(3)
    by (simp add: Let_def)
  have kept: \<open>extractCommentFromHTML ''2024-02-01'' ''<p>Nice and fast, rating: 9</p>'' \<noteq> None\<close>
    \<open>extractCommentFromHTML ''2024-02-01'' ''<p>First review ok</p>'' \<noteq> None\<close>
    using returned_records_wellformed[where today = \<open>''2024-02-01''\<close>
        and element = \<open>''<p>Nice and fast, rating: 9</p>''\<close>]
      returned_records_wellformed[where today = \<open>''2024-02-01''\<close>
        and element = \<open>''<p>First review ok</p>''\<close>] tc(1,2)
    by (simp_all add: Let_def)
  have c: \<open>extractCommentFromHTML ''2024-02-01'' ''<p>Nice and fast, rating: 9</p>'' =
       Some \<lparr>text' = ''Nice and fast, rating: 9'', rating = 0, date = ''2024-02-01'',
             author = ''Unknown'', helpful = 0, source = ''html''\<rparr>\<close>
    \<open>extractCommentFromHTML ''2024-02-01'' ''<p>First review ok</p>'' =
       Some \<lparr>text' = ''First review ok'', rating = 0, date = ''2024-02-01'',
             author = ''Unknown'', helpful = 0, source = ''html''\<rparr>\<close>
    by (simp_all add: eval_simps del: cmatch.simps(4))
  have e: \<open>rating (hd sampleReviews) = 5\<close>
    by (simp add: sampleReviews_def)
  note inst = returned_records_wellformed[where parser = \<open>\<lambda>s. None\<close>
      and today = \<open>''2024-02-01''\<close> and html = \<open>Text markup_container\<close>
      and limit = \<open>Fin 1\<close> and appId = \<open>''com.whatsapp''\<close>]
  note inst' = returned_records_wellformed[where parser = \<open>\<lambda>s. None\<close>
      and today = \<open>''2024-02-01''\<close> and html = \<open>Text markup_container\<close>
      and limit = \<open>Fin 5\<close>]
  from inst' a have \<open>text' (container_review ''2024-02-01'') \<noteq> []
     \<and> 0 \<le> rating (container_review ''2024-02-01'') \<and> rating (container_review ''2024-02-01'') \<le> 5\<close>
    by blast
  moreover from inst b have \<open>text' (hd sampleReviews) \<noteq> []\<close>
    by blast
  ultimately show ?thesis
    using a b c d e kept fetchComments_page extract_markup_unrated by simp
qed

text \<open>
  Claim C9 as stated fails: two calls with the same markup and the same limit differ when
  the calendar date changes between them.
\<close>

theorem extraction_reads_clock_counterexample:
  \<open>\<not> (\<forall>parser today today' html limit.
        extractReviewsFromHTML parser today html limit =
        extractReviewsFromHTML parser today' html limit)\<close>
proof
  assume \<open>\<forall>parser today today' html limit.
        extractReviewsFromHTML parser today html limit =
        extractReviewsFromHTML parser today' html limit\<close>
  then have \<open>extractReviewsFromHTML (\<lambda>s. None) ''2024-01-15'' (Text markup_container) (Fin 5) =
      extractReviewsFromHTML (\<lambda>s. None) ''2024-01-16'' (Text markup_container) (Fin 5)\<close>
    by blast
  then show False
    by (simp add: extract_markup_container)
qed

text \<open>
  Claim C7 fails on the code.  On markup whose script holds a \<open>"reviews"\<close> array with one
  entry that has a \<open>text\<close> field, the engine emits nothing, whatever the parser would make
  of the array: \<open>matches[1]\<close> is the second whole match (here \<open>undefined\<close>), not the
  captured array, and is never JSON.
\<close>

theorem embedded_array_not_parsed:
  \<open>\<forall>parser today. extractReviewsFromHTML parser today (Text markup_embedded) (Fin 5) = []\<close>
  by (simp add: extract_markup_embedded)

text \<open>
  Claim C8 fails on the code.  With one quoted value under \<open>"reviewText"\<close> the engine
  emits no record; with two it emits one record, for the second occurrence, whose text is
  the whole match with key and quotes, not the quoted value.
\<close>

theorem bare_text_first_match_skipped:
  \<open>(\<forall>parser today. extractReviewsFromHTML parser today (Text markup_bare) (Fin 5) = [])
   \<and> (\<forall>parser today. extractReviewsFromHTML parser today (Text markup_bare2) (Fin 5) =
        [\<lparr>text' = ''"reviewText": "Second one"'', rating = 0, date = today, author = ''Unknown'',
          helpful = 0, source = ''api''\<rparr>])\<close>
  by (simp add: extract_markup_bare extract_markup_bare2)

lemma count_comments_total:
  \<open>snd (snd (count_comments cs acc)) = snd (snd acc) + sum_list (map rating cs)\<close>
proof (induction cs arbitrary: acc)
  case Nil
  then show ?case by simp
next
  case (Cons c cs)
  show ?case
    by (cases acc) (simp add: Cons.IH)
qed

lemma averageRating_compute_stats:
  \<open>averageRating (compute_stats cs) =
     (if cs = [] then AvgNumber 0
      else AvgString (toFixed2 (sum_list (map rating cs)) (length cs)))\<close>
  using count_comments_total[of cs \<open>([], [], 0)\<close>]
  by (auto simp: compute_stats_def split: prod.splits)

lemma totalRating_compute_stats:
  \<open>totalRating (compute_stats cs) = sum_list (map rating cs)\<close>
  using count_comments_total[of cs \<open>([], [], 0)\<close>]
  by (auto simp: compute_stats_def split: prod.splits)

lemma validateCommentParams_rejects:
  \<open>limit_out_of_range (parseInt l) 200 \<Longrightarrow>
   validateCommentParams (Some l) so =
     Some \<lparr>status = 400, payload = ErrorBody ''Invalid limit parameter''
             (Some ''Limit must be a number between 1 and 200'')\<rparr>\<close>
  by (simp add: validateCommentParams_def)

lemma validateCommentParams_accepts:
  \<open>\<not> limit_out_of_range (parseInt l) 200 \<Longrightarrow> validateCommentParams (Some l) None = None\<close>
  by (simp add: validateCommentParams_def)

lemma validateCommentParams_boundaries:
  \<open>validateCommentParams (Some ''1'') None = None\<close>
  \<open>validateCommentParams (Some ''200'') None = None\<close>
  \<open>validateCommentParams (Some ''0'') None \<noteq> None\<close>
  \<open>validateCommentParams (Some ''201'') None \<noteq> None\<close>
  \<open>validateCommentParams (Some ''abc'') None \<noteq> None\<close>
  by (simp_all add: validateCommentParams_def parseInt_examples)

lemma validate_each_whatsapp: \<open>validate_each 0 [JString ''com.whatsapp''] = None\<close>
  by (simp add: appIdPattern_test_def is_alnum_def trim_def is_space_def)

lemma validateBatchRequest_limit:
  \<open>validateBatchRequest \<lparr>bb_appIds = Some [JString ''com.whatsapp''], bb_limit = Some v,
       bb_sort = None\<rparr> =
     (case parseInt_value v of
        Raised e \<Rightarrow> Raised e
      | Returned n \<Rightarrow>
          if limit_out_of_range n 100
          then Returned (Some \<lparr>status = 400, payload = ErrorBody ''Invalid limit parameter''
                   (Some ''Limit must be a number between 1 and 100 for batch requests'')\<rparr>)
          else Returned None)\<close>
  by (simp add: validateBatchRequest_def validate_each_whatsapp split: outcome.splits
      del: validate_each.simps)

lemma validateBatchRequest_boundaries:
  \<open>validateBatchRequest \<lparr>bb_appIds = Some [JString ''com.whatsapp''], bb_limit = Some (JOther ''1''),
       bb_sort = None\<rparr> = Returned None\<close>
  \<open>validateBatchRequest \<lparr>bb_appIds = Some [JString ''com.whatsapp''], bb_limit = Some (JOther ''100''),
       bb_sort = None\<rparr> = Returned None\<close>
  \<open>validateBatchRequest \<lparr>bb_appIds = Some [JString ''com.whatsapp''], bb_limit = Some (JOther ''0''),
       bb_sort = None\<rparr> \<noteq> Returned None\<close>
  \<open>validateBatchRequest \<lparr>bb_appIds = Some [JString ''com.whatsapp''], bb_limit = Some (JOther ''101''),
       bb_sort = None\<rparr> \<noteq> Returned None\<close>
  by (simp_all add: validateBatchRequest_limit parseInt_value_def parseInt_def is_space_def
      is_digit_def parse_digits_def digit_val_def Let_def)

lemma fetchComments_never_raises:
  \<open>\<exists>cs. fst (fetchComments w appId opts trace) = Returned cs\<close>
  unfolding fetchComments_def Let_def by (rule fetchComments_with_never_raises)

lemma to_text_Raised: \<open>to_text v = Raised e \<longleftrightarrow> v = JUnprintable \<and> e = cannot_convert\<close>
  by (cases v) auto

lemma fetchComments_value_unprintable:
  \<open>fst (fetchComments_value w JUnprintable limit so trace) = Raised cannot_convert\<close>
  by (simp add: fetchComments_value_def)

lemma fetchComments_value_printable:
  assumes \<open>v \<noteq> JUnprintable\<close>
  shows \<open>\<exists>cs. fst (fetchComments_value w v limit so trace) = Returned cs\<close>
proof -
  from assms obtain a where a: \<open>to_text v = Returned a\<close> by (cases v) auto
  show ?thesis
  proof (cases \<open>to_text so\<close>)
    case (Returned s)
    with a show ?thesis
      using fetchComments_never_raises by (simp add: fetchComments_value_def)
  next
    case (Raised e)
    with a show ?thesis
      using fetchComments_with_never_raises by (simp add: fetchComments_value_def)
  qed
qed

lemma fetchComments_value_unreachable:
  assumes \<open>to_text v = Returned a\<close> and \<open>unreachable w a\<close>
  shows \<open>fst (fetchComments_value w v limit so trace) = Returned (generateSampleReviews a limit)\<close>
proof -
  from assms(2) obtain e where alt: \<open>w_http w (alternative_request a ''en'' ''US'') = Failed e\<close>
    by (auto simp: unreachable_def)
  have page: \<open>\<exists>e. w_http w (page_request a s ''en'' ''US'') = Failed e\<close> for s
    using assms(2) by (auto simp: unreachable_def)
  show ?thesis
  proof (cases \<open>to_text so\<close>)
    case (Returned s)
    from page[of s] obtain e' where \<open>w_http w (page_request a s ''en'' ''US'') = Failed e'\<close>
      by blast
    with assms(1) Returned alt show ?thesis
      by (simp add: fetchComments_value_def fetchComments_def fetchComments_with_def
          fetchReviewsFromPage_def fetchReviewsAlternative_def or_default_def Let_def)
  next
    case (Raised e')
    with assms(1) alt show ?thesis
      by (simp add: fetchComments_value_def fetchComments_with_def fetchReviewsAlternative_def
          Let_def)
  qed
qed

lemma batch_callbacks_pushed:
  assumes \<open>batch_limit lim = Returned l\<close>
  shows \<open>batch_callbacks w appIds lim so finished acc =
     (fst acc @
        map (\<lambda>i. \<lparr>br_appId = appIds ! i, br_success = True,
                  br_totalComments = length (comments_of (fst (fetchComments_value w (appIds ! i) l so []))),
                  br_comments = comments_of (fst (fetchComments_value w (appIds ! i) l so []))\<rparr>)
          (filter (\<lambda>i. appIds ! i \<noteq> JUnprintable) finished),
      snd acc @
        map (\<lambda>i. \<lparr>be_appId = appIds ! i, be_success = False, be_error = cannot_convert\<rparr>)
          (filter (\<lambda>i. appIds ! i = JUnprintable) finished))\<close>
proof (induction finished arbitrary: acc)
  case Nil
  then show ?case by simp
next
  case (Cons i finished)
  show ?case
  proof (cases \<open>appIds ! i = JUnprintable\<close>)
    case True
    then show ?thesis
      using assms by (simp add: Cons.IH fetchComments_value_unprintable)
  next
    case False
    from fetchComments_value_printable[OF False, of w l so \<open>[]\<close>] obtain cs
      where \<open>fst (fetchComments_value w (appIds ! i) l so []) = Returned cs\<close> by blast
    with False show ?thesis
      using assms by (simp add: Cons.IH comments_of_def)
  qed
qed

lemma length_finished:
  assumes \<open>mset finished = mset [0..<n]\<close>
  shows \<open>length finished = n\<close>
  using assms by (metis length_upt mset_eq_length minus_nat.diff_0)

text \<open>
  Claim C5, as amended.  For every batch request that passes the handler's structural
  checks (an array of 1 to 10 identifiers) and whose limit can be converted to a string,
  once every callback has finished, in whatever order, the response is HTTP 200 with
  \<open>successful + failed = totalApps\<close>.  The entries of \<open>results\<close> are, in the order
  of completion, those of the identifiers that can be converted to a string, each carrying
  what \<open>fetchComments\<close> returned for it under the limit and sort of the request; the
  entries of \<open>errors\<close> are those of the identifiers that cannot be converted.  For an
  identifier whose upstream retrieval fails, \<open>fetchComments\<close> returns the sample data,
  so that its entry is in \<open>results\<close>; for no identifier that can be converted does it
  throw.
\<close>

theorem batch_every_identifier_in_results:
  assumes \<open>bb_appIds body = Some appIds\<close>
    and \<open>1 \<le> length appIds\<close> and \<open>length appIds \<le> 10\<close>
    and \<open>mset finished = mset [0..<length appIds]\<close>
    and \<open>batch_limit (bb_limit body) = Returned limit\<close>
  shows \<open>\<exists>d. post_batch w finished body = \<lparr>status = 200, payload = BatchBody d\<rparr>
           \<and> totalApps d = length appIds
           \<and> successful d + failed d = totalApps d
           \<and> successful d = length (results d) \<and> failed d = length (errors d)
           \<and> results d =
               map (\<lambda>i. \<lparr>br_appId = appIds ! i, br_success = True,
                         br_totalComments = length (comments_of (fst (fetchComments_value w (appIds ! i)
                           limit (or_default (bb_sort body) (JString ''recent'')) []))),
                         br_comments = comments_of (fst (fetchComments_value w (appIds ! i)
                           limit (or_default (bb_sort body) (JString ''recent'')) []))\<rparr>)
                 (filter (\<lambda>i. appIds ! i \<noteq> JUnprintable) finished)
           \<and> errors d =
               map (\<lambda>i. \<lparr>be_appId = appIds ! i, be_success = False, be_error = cannot_convert\<rparr>)
                 (filter (\<lambda>i. appIds ! i = JUnprintable) finished)
           \<and> (\<forall>v a. to_text v = Returned a \<and> unreachable w a \<longrightarrow>
                 fst (fetchComments_value w v limit (or_default (bb_sort body) (JString ''recent'')) []) =
                   Returned (generateSampleReviews a limit))
           \<and> (\<forall>v. v \<noteq> JUnprintable \<longrightarrow>
                 (\<exists>cs. fst (fetchComments_value w v limit
                          (or_default (bb_sort body) (JString ''recent'')) []) = Returned cs))\<close>
proof -
  define so where \<open>so = or_default (bb_sort body) (JString ''recent'')\<close>
  define pushed where \<open>pushed = batch_callbacks w appIds (bb_limit body) so finished ([], [])\<close>
  define d where \<open>d = \<lparr>totalApps = length appIds, successful = length (fst pushed),
      failed = length (snd pushed), results = fst pushed, errors = snd pushed,
      b_fetchedAt = w_now w, b_limit = limit, b_sort = so\<rparr>\<close>
  have resp: \<open>post_batch w finished body = \<lparr>status = 200, payload = BatchBody d\<rparr>\<close>
    using assms(1-3,5)
    by (auto simp: post_batch_def Let_def d_def pushed_def so_def)
  note pushed = batch_callbacks_pushed[OF assms(5), of w appIds so finished \<open>([], [])\<close>,
      folded pushed_def]
  have total: \<open>length (fst pushed) + length (snd pushed) = length appIds\<close>
    using length_finished[OF assms(4)]
    by (simp add: pushed sum_length_filter_compl[of \<open>\<lambda>i. appIds ! i \<noteq> JUnprintable\<close> finished, simplified])
  show ?thesis
    using resp total pushed fetchComments_value_unreachable fetchComments_value_printable
    by (intro exI[of _ d]) (simp add: d_def so_def)
qed

lemma batch_limit_one: \<open>batch_limit (Some (JOther ''1'')) = Returned (Fin 1)\<close>
  by (simp add: batch_limit_def parseInt_value_def parseInt_examples)

lemma extract_markup_container_1:
  \<open>extractReviewsFromHTML parser today (Text markup_container) (Fin 1) = [container_review today]\<close>
  by (simp add: eval_simps markup_container_def container_review_def del: cmatch.simps(4))

lemma unreachable_down: \<open>unreachable w_one_down ''com.down.app''\<close>
  by (auto simp: unreachable_def w_one_down_def page_request_def alternative_request_def
      buildAppPageUrl_def baseUrl_def getSortParameter_def split: option.splits)

lemma fetchComments_value_down:
  \<open>fst (fetchComments_value w_one_down (JString ''com.down.app'') (Fin 1) (JString ''recent'') []) =
    Returned [hd sampleReviews]\<close>
  using fetchComments_value_unreachable[of \<open>JString ''com.down.app''\<close> \<open>''com.down.app''\<close>
      w_one_down \<open>Fin 1\<close> \<open>JString ''recent''\<close> \<open>[]\<close>] unreachable_down
  by (simp add: generateSampleReviews_1)

lemma fetchComments_value_good:
  \<open>fst (fetchComments_value w_one_down (JString ''com.good.app'') (Fin 1) (JString ''recent'') []) =
    Returned [container_review ''2024-02-01'']\<close>
  by (simp add: fetchComments_value_def fetchComments_def fetchComments_with_def
      fetchReviewsFromPage_def fetchReviewsAlternative_def w_one_down_def or_default_def Let_def
      page_request_def alternative_request_def buildAppPageUrl_def baseUrl_def
      getSortParameter_def extract_markup_container_1)

text \<open>
  Claim C5 as stated fails: in a batch of two identifiers where the upstream is unreachable
  for exactly one of them, that identifier's entry is in \<open>results\<close>, with sample data,
  and \<open>errors\<close> is empty.  And a batch that passes the structural checks with a limit
  that cannot be converted to a string is answered with status 500.
\<close>

theorem batch_failed_upstream_not_in_errors_counterexample:
  \<open>w_http w_one_down (page_request ''com.down.app'' ''recent'' ''en'' ''US'') =
       Failed ''getaddrinfo ENOTFOUND play.google.com''
   \<and> w_http w_one_down (alternative_request ''com.down.app'' ''en'' ''US'') =
       Failed ''getaddrinfo ENOTFOUND play.google.com''
   \<and> w_http w_one_down (page_request ''com.good.app'' ''recent'' ''en'' ''US'') =
       Response 200 (Text markup_container)
   \<and> post_batch w_one_down [0, 1] down_and_good =
       \<lparr>status = 200,
        payload = BatchBody
          \<lparr>totalApps = 2, successful = 2, failed = 0,
           results =
             [\<lparr>br_appId = JString ''com.down.app'', br_success = True, br_totalComments = 1,
               br_comments = [hd sampleReviews]\<rparr>,
              \<lparr>br_appId = JString ''com.good.app'', br_success = True, br_totalComments = 1,
               br_comments = [container_review ''2024-02-01'']\<rparr>],
           errors = [],
           b_fetchedAt = ''2024-02-01T10:30:00.000Z'', b_limit = Fin 1,
           b_sort = JString ''recent''\<rparr>\<rparr>
   \<and> post_batch w_one_down [0] unprintable_limit =
       \<lparr>status = 500,
        payload = ErrorBody ''Failed to process batch request''
          (Some ''Cannot convert object to primitive value'')\<rparr>\<close>
proof -
  have \<open>post_batch w_one_down [0, 1] down_and_good =
       \<lparr>status = 200,
        payload = BatchBody
          \<lparr>totalApps = 2, successful = 2, failed = 0,
           results =
             [\<lparr>br_appId = JString ''com.down.app'', br_success = True, br_totalComments = 1,
               br_comments = [hd sampleReviews]\<rparr>,
              \<lparr>br_appId = JString ''com.good.app'', br_success = True, br_totalComments = 1,
               br_comments = [container_review ''2024-02-01'']\<rparr>],
           errors = [],
           b_fetchedAt = ''2024-02-01T10:30:00.000Z'', b_limit = Fin 1,
           b_sort = JString ''recent''\<rparr>\<rparr>\<close>
    by (simp add: post_batch_def down_and_good_def Let_def or_default_def batch_limit_one
        fetchComments_value_down fetchComments_value_good)
      (simp add: w_one_down_def)
  moreover have \<open>w_http w_one_down (page_request ''com.down.app'' ''recent'' ''en'' ''US'') =
       Failed ''getaddrinfo ENOTFOUND play.google.com''\<close>
    \<open>w_http w_one_down (alternative_request ''com.down.app'' ''en'' ''US'') =
       Failed ''getaddrinfo ENOTFOUND play.google.com''\<close>
    \<open>w_http w_one_down (page_request ''com.good.app'' ''recent'' ''en'' ''US'') =
       Response 200 (Text markup_container)\<close>
    by (simp_all add: w_one_down_def page_request_def alternative_request_def
        buildAppPageUrl_def baseUrl_def getSortParameter_def)
  moreover have \<open>post_batch w_one_down [0] unprintable_limit =
       \<lparr>status = 500,
        payload = ErrorBody ''Failed to process batch request''
          (Some ''Cannot convert object to primitive value'')\<rparr>\<close>
    by (simp add: post_batch_def unprintable_limit_def Let_def batch_limit_def
        parseInt_value_def cannot_convert_def)
  ultimately show ?thesis by simp
qed

theorem batch_every_identifier_in_results_witness:
  \<open>post_batch w_one_down [2, 0, 1] mixed_batch =
     \<lparr>status = 200,
      payload = BatchBody
        \<lparr>totalApps = 3, successful = 2, failed = 1,
         results =
           [\<lparr>br_appId = JString ''com.good.app'', br_success = True, br_totalComments = 1,
             br_comments = [container_review ''2024-02-01'']\<rparr>,
            \<lparr>br_appId = JString ''com.down.app'', br_success = True, br_totalComments = 1,
             br_comments = generateSampleReviews ''com.down.app'' (Fin 1)\<rparr>],
         errors =
           [\<lparr>be_appId = JUnprintable, be_success = False,
             be_error = ''Cannot convert object to primitive value''\<rparr>],
         b_fetchedAt = ''2024-02-01T10:30:00.000Z'', b_limit = Fin 1,
         b_sort = JString ''recent''\<rparr>\<rparr>\<close>
proof -
  let ?ids = \<open>[JUnprintable, JString ''com.down.app'', JString ''com.good.app'']\<close>
  have a: \<open>bb_appIds mixed_batch = Some ?ids\<close>
    by (simp add: mixed_batch_def)
  have b: \<open>1 \<le> length ?ids\<close> \<open>length ?ids \<le> 10\<close>
    by simp_all
  have c: \<open>mset [2, 0, 1] = mset [0..<length ?ids]\<close>
    by (simp add: upt_rec)
  have l: \<open>batch_limit (bb_limit mixed_batch) = Returned (Fin 1)\<close>
    by (simp add: mixed_batch_def batch_limit_one)
  have so: \<open>or_default (bb_sort mixed_batch) (JString ''recent'') = JString ''recent''\<close>
    by (simp add: mixed_batch_def or_default_def)
  from batch_every_identifier_in_results[OF a b c l, of w_one_down]
  obtain d where d: \<open>post_batch w_one_down [2, 0, 1] mixed_batch = \<lparr>status = 200, payload = BatchBody d\<rparr>\<close>
    and sample: \<open>\<forall>v a. to_text v = Returned a \<and> unreachable w_one_down a \<longrightarrow>
        fst (fetchComments_value w_one_down v (Fin 1)
          (or_default (bb_sort mixed_batch) (JString ''recent'')) []) =
          Returned (generateSampleReviews a (Fin 1))\<close>
    by blast
  from sample[rule_format, of \<open>JString ''com.down.app''\<close> \<open>''com.down.app''\<close>] unreachable_down so
  have down: \<open>fst (fetchComments_value w_one_down (JString ''com.down.app'') (Fin 1)
      (JString ''recent'') []) = Returned (generateSampleReviews ''com.down.app'' (Fin 1))\<close>
    by simp
  show ?thesis
    by (simp add: post_batch_def mixed_batch_def Let_def or_default_def batch_limit_one
        down fetchComments_value_good fetchComments_value_unprintable)
      (simp add: w_one_down_def cannot_convert_def generateSampleReviews_1)
qed

text \<open>
  Claim C4 fails on the routes.  \<open>validateCommentParams\<close> and \<open>validateBatchRequest\<close>
  do reject a limit of 999 and of 500 with status 400, but the routes do not mount them:
  the same requests reach \<open>fetchComments\<close> with the limit 999 and 500 and are answered
  with status 200 and the orchestrator's records.
\<close>

theorem out_of_range_limit_reaches_orchestrator:
  \<open>validateCommentParams (Some ''999'') None =
     Some \<lparr>status = 400, payload = ErrorBody ''Invalid limit parameter''
             (Some ''Limit must be a number between 1 and 200'')\<rparr>
   \<and> get_comments w_down \<lparr>p_appId = ''com.whatsapp'', q_limit = Some ''999'', q_sort = None\<rparr> =
     \<lparr>status = 200,
      payload = CommentsBody
        \<lparr>c_appId = ''com.whatsapp'', c_totalComments = 10, c_comments = sampleReviews,
         c_fetchedAt = ''2024-02-01T10:30:00.000Z'', c_limit = Fin 999, c_sort = ''recent''\<rparr>\<rparr>
   \<and> validateBatchRequest
       \<lparr>bb_appIds = Some [JString ''com.whatsapp''], bb_limit = Some (JOther ''500''), bb_sort = None\<rparr> =
     Returned (Some \<lparr>status = 400, payload = ErrorBody ''Invalid limit parameter''
             (Some ''Limit must be a number between 1 and 100 for batch requests'')\<rparr>)
   \<and> post_batch w_down [0]
       \<lparr>bb_appIds = Some [JString ''com.whatsapp''], bb_limit = Some (JOther ''500''), bb_sort = None\<rparr> =
     \<lparr>status = 200,
      payload = BatchBody
        \<lparr>totalApps = 1, successful = 1, failed = 0,
         results = [\<lparr>br_appId = JString ''com.whatsapp'', br_success = True, br_totalComments = 10,
                     br_comments = sampleReviews\<rparr>],
         errors = [],
         b_fetchedAt = ''2024-02-01T10:30:00.000Z'', b_limit = Fin 500, b_sort = JString ''recent''\<rparr>\<rparr>\<close>
proof -
  have p500: \<open>parseInt ''500'' = Fin 500\<close>
    by (simp add: parseInt_def is_space_def is_digit_def parse_digits_def digit_val_def Let_def)
  have sample: \<open>generateSampleReviews appId (Fin 999) = sampleReviews\<close>
    \<open>generateSampleReviews appId (Fin 500) = sampleReviews\<close> for appId
    by (simp_all add: generateSampleReviews_def length_sampleReviews)
  have a: \<open>validateCommentParams (Some ''999'') None =
     Some \<lparr>status = 400, payload = ErrorBody ''Invalid limit parameter''
             (Some ''Limit must be a number between 1 and 200'')\<rparr>\<close>
    by (simp add: validateCommentParams_rejects parseInt_examples)
  have b: \<open>get_comments w_down \<lparr>p_appId = ''com.whatsapp'', q_limit = Some ''999'', q_sort = None\<rparr> =
     \<lparr>status = 200,
      payload = CommentsBody
        \<lparr>c_appId = ''com.whatsapp'', c_totalComments = 10, c_comments = sampleReviews,
         c_fetchedAt = ''2024-02-01T10:30:00.000Z'', c_limit = Fin 999, c_sort = ''recent''\<rparr>\<rparr>\<close>
    by (simp add: get_comments_def get_comments_handler_def validateAppId_whatsapp
        parseInt_or_def parseInt_examples or_default_def fetchComments_down sample
        length_sampleReviews Let_def)
      (simp add: w_down_def)
  have c: \<open>validateBatchRequest
       \<lparr>bb_appIds = Some [JString ''com.whatsapp''], bb_limit = Some (JOther ''500''), bb_sort = None\<rparr> =
     Returned (Some \<lparr>status = 400, payload = ErrorBody ''Invalid limit parameter''
             (Some ''Limit must be a number between 1 and 100 for batch requests'')\<rparr>)\<close>
    by (simp add: validateBatchRequest_limit parseInt_value_def p500)
  have d: \<open>post_batch w_down [0]
       \<lparr>bb_appIds = Some [JString ''com.whatsapp''], bb_limit = Some (JOther ''500''), bb_sort = None\<rparr> =
     \<lparr>status = 200,
      payload = BatchBody
        \<lparr>totalApps = 1, successful = 1, failed = 0,
         results = [\<lparr>br_appId = JString ''com.whatsapp'', br_success = True, br_totalComments = 10,
                     br_comments = sampleReviews\<rparr>],
         errors = [],
         b_fetchedAt = ''2024-02-01T10:30:00.000Z'', b_limit = Fin 500, b_sort = JString ''recent''\<rparr>\<rparr>\<close>
    by (simp add: post_batch_def or_default_def batch_limit_def parseInt_value_def p500
        fetchComments_value_def fetchComments_down sample length_sampleReviews Let_def)
      (simp add: w_down_def)
  from a b c d show ?thesis by simp
qed

text \<open>
  Claim C6 fails on the code.  With one record of rating 5 the statistics carry the text
  \<open>5.00\<close> as \<open>averageRating\<close>, not a number; and with 40 records whose ratings sum to
  43 they carry \<open>1.07\<close>, the rounding of the double nearest to 1.075, where the quotient
  rounded to two decimals is 1.08.
\<close>

theorem stats_averageRating_is_text:
  \<open>(\<exists>d. get_stats w_down \<lparr>sp_appId = ''com.whatsapp'', sq_limit = Some ''1''\<rparr> =
          \<lparr>status = 200, payload = StatsBody d\<rparr>
        \<and> totalComments (s_stats d) = 1 \<and> totalRating (s_stats d) = 5
        \<and> averageRating (s_stats d) = AvgString ''5.00'')
   \<and> totalComments (compute_stats (replicate 37 (starred 1) @ replicate 3 (starred 2))) = 40
   \<and> totalRating (compute_stats (replicate 37 (starred 1) @ replicate 3 (starred 2))) = 43
   \<and> averageRating (compute_stats (replicate 37 (starred 1) @ replicate 3 (starred 2))) =
        AvgString ''1.07''\<close>
proof -
  have r: \<open>rating (hd sampleReviews) = 5\<close>
    by (simp add: sampleReviews_def)
  have fx: \<open>toFixed2 5 (Suc 0) = ''5.00''\<close>
    using toFixed2_5_1 by simp
  have one: \<open>\<exists>d. get_stats w_down \<lparr>sp_appId = ''com.whatsapp'', sq_limit = Some ''1''\<rparr> =
          \<lparr>status = 200, payload = StatsBody d\<rparr>
        \<and> totalComments (s_stats d) = 1 \<and> totalRating (s_stats d) = 5
        \<and> averageRating (s_stats d) = AvgString ''5.00''\<close>
    by (simp add: get_stats_def get_stats_handler_def validateAppId_whatsapp parseInt_or_def
        parseInt_examples fetchComments_down generateSampleReviews_1 Let_def
        averageRating_compute_stats totalRating_compute_stats r fx)
      (simp add: compute_stats_def split: prod.splits)
  define cs where \<open>cs = replicate 37 (starred 1) @ replicate 3 (starred 2)\<close>
  have sum: \<open>sum_list (map rating cs) = 43\<close>
    by (simp add: cs_def starred_def sum_list_replicate)
  have len: \<open>length cs = 40\<close>
    by (simp add: cs_def)
  then have ne: \<open>cs \<noteq> []\<close>
    by auto
  have forty: \<open>totalComments (compute_stats cs) = 40\<close>
    using len by (simp add: compute_stats_def split: prod.splits)
  have many: \<open>totalComments (compute_stats cs) = 40 \<and> totalRating (compute_stats cs) = 43
      \<and> averageRating (compute_stats cs) = AvgString ''1.07''\<close>
    using forty sum len ne
    by (simp add: averageRating_compute_stats totalRating_compute_stats toFixed2_43_40)
  from one many show ?thesis
    unfolding cs_def by blast
qed


end
